theory Spec2Isabelle
  imports Complex_Main
begin

text \<open>
  The grade, attendance and enrollment rules of the course management backend: the
  Mongoose schemas with their pre-save hooks (\<open>backend/models/*.js\<close>) and the route
  handlers that use them (\<open>backend/routes/*.js\<close>), as the backend documentation
  gives them, in code where it quotes the code and in its numbered process steps
  otherwise.  Where the documents quote one hook or route in more than one version,
  each version has a definition of its own.  Each definition names the hook, route or step
  it follows.  Requests are taken after authentication and the role and ownership
  checks; notifications, file uploads and timestamps of bookkeeping are left out.  The
  in-memory \<open>MockModel\<close> of \<open>backend/models/MockModels.js\<close> runs no hook and is not
  what is modelled here.
\<close>

section \<open>JavaScript numbers\<close>

text \<open>
  Every number of the application is a JavaScript \<open>Number\<close>, an IEEE double.  A
  finite one is a rational, so the finite values are modelled by \<^typ>\<open>rat\<close> and the
  three special values are written out; the two zeros are identified.  The arithmetic
  of the grading path rounds every result to the nearest double, as the code does, for
  a letter grade can depend on the last bit.  The average of the grade points is taken
  exactly, which no outcome stated of it depends on.
\<close>

datatype jsnum = Fin rat | PInf | NInf | NaN

text \<open>\<open>x >= c\<close> for a finite constant \<open>c\<close>; every comparison with \<open>NaN\<close> is false.\<close>

fun js_ge :: "jsnum \<Rightarrow> rat \<Rightarrow> bool" where
  "js_ge (Fin a) c = (c \<le> a)"
| "js_ge PInf c = True"
| "js_ge NInf c = False"
| "js_ge NaN c = False"

text \<open>
  The exact quotient \<open>a / b\<close> of finite operands: a zero divisor gives \<open>NaN\<close> or an
  infinity.
\<close>

definition js_div :: "rat \<Rightarrow> rat \<Rightarrow> jsnum" where
  "js_div a b =
     (if b \<noteq> 0 then Fin (a / b)
      else if a = 0 then NaN
      else if 0 < a then PInf
      else NInf)"

subsection \<open>Rounding to the nearest double\<close>

text \<open>The number of binary digits of a natural number.\<close>

fun bit_length :: "nat \<Rightarrow> nat" where
  "bit_length n = (if n = 0 then 0 else Suc (bit_length (n div 2)))"

declare bit_length.simps [simp del]

definition pow2 :: "int \<Rightarrow> rat" where
  "pow2 e = (if 0 \<le> e then 2 ^ nat e else 1 / 2 ^ nat (- e))"

text \<open>The exponent \<open>e\<close> of a positive \<open>a\<close>: \<open>2 ^ e \<le> a < 2 ^ (e + 1)\<close>.\<close>

definition ilog2 :: "rat \<Rightarrow> int" where
  "ilog2 a =
     (if 1 \<le> a then int (bit_length (nat \<lfloor>a\<rfloor>)) - 1
      else - int (bit_length (nat (\<lceil>1 / a\<rceil> - 1))))"

text \<open>The nearest integer, a tie going to the even one.\<close>

definition round_even :: "rat \<Rightarrow> int" where
  "round_even q =
     (if q - of_int \<lfloor>q\<rfloor> < 1 / 2 then \<lfloor>q\<rfloor>
      else if 1 / 2 < q - of_int \<lfloor>q\<rfloor> then \<lfloor>q\<rfloor> + 1
      else if even \<lfloor>q\<rfloor> then \<lfloor>q\<rfloor>
      else \<lfloor>q\<rfloor> + 1)"

definition round_to :: "rat \<Rightarrow> rat \<Rightarrow> rat" where
  "round_to ulp a = of_int (round_even (a / ulp)) * ulp"

text \<open>
  The spacing of the doubles around a positive \<open>a\<close>: 53 significant bits, and the
  spacing of the subnormal numbers below \<open>2 ^ - 1022\<close>.
\<close>

definition ulp_of :: "rat \<Rightarrow> rat" where
  "ulp_of a = pow2 (max (ilog2 a) (- 1022) - 52)"

text \<open>A magnitude that rounds up to \<open>2 ^ 1024\<close> is an infinity.\<close>

definition overflow :: "rat \<Rightarrow> rat \<Rightarrow> jsnum" where
  "overflow s y = (if pow2 1024 \<le> y then (if 0 < s then PInf else NInf) else Fin (s * y))"

text \<open>The double nearest to an exact result \<open>x\<close> (round to nearest, ties to even).\<close>

definition fl :: "rat \<Rightarrow> jsnum" where
  "fl x = overflow (sgn x) (round_to (ulp_of \<bar>x\<bar>) \<bar>x\<bar>)"

text \<open>\<open>x / y\<close>, \<open>x * y\<close> and \<open>x - y\<close> of doubles.\<close>

fun fdiv :: "jsnum \<Rightarrow> jsnum \<Rightarrow> jsnum" where
  "fdiv NaN y = NaN"
| "fdiv x NaN = NaN"
| "fdiv (Fin a) (Fin b) =
     (if b \<noteq> 0 then fl (a / b)
      else if a = 0 then NaN
      else if 0 < a then PInf
      else NInf)"
| "fdiv (Fin a) PInf = Fin 0"
| "fdiv (Fin a) NInf = Fin 0"
| "fdiv PInf (Fin b) = (if 0 \<le> b then PInf else NInf)"
| "fdiv NInf (Fin b) = (if 0 \<le> b then NInf else PInf)"
| "fdiv PInf y = NaN"
| "fdiv NInf y = NaN"

fun fmul :: "jsnum \<Rightarrow> jsnum \<Rightarrow> jsnum" where
  "fmul NaN y = NaN"
| "fmul x NaN = NaN"
| "fmul (Fin a) (Fin b) = fl (a * b)"
| "fmul (Fin a) PInf = (if a = 0 then NaN else if 0 < a then PInf else NInf)"
| "fmul (Fin a) NInf = (if a = 0 then NaN else if 0 < a then NInf else PInf)"
| "fmul PInf (Fin b) = (if b = 0 then NaN else if 0 < b then PInf else NInf)"
| "fmul NInf (Fin b) = (if b = 0 then NaN else if 0 < b then NInf else PInf)"
| "fmul PInf PInf = PInf"
| "fmul PInf NInf = NInf"
| "fmul NInf PInf = NInf"
| "fmul NInf NInf = PInf"

fun fsub :: "jsnum \<Rightarrow> jsnum \<Rightarrow> jsnum" where
  "fsub NaN y = NaN"
| "fsub x NaN = NaN"
| "fsub (Fin a) (Fin b) = fl (a - b)"
| "fsub (Fin a) PInf = NInf"
| "fsub (Fin a) NInf = PInf"
| "fsub PInf PInf = NaN"
| "fsub NInf NInf = NaN"
| "fsub PInf y = PInf"
| "fsub NInf y = NInf"

text \<open>\<open>x <= c\<close> for a finite constant \<open>c\<close>.\<close>

fun js_le :: "jsnum \<Rightarrow> rat \<Rightarrow> bool" where
  "js_le (Fin a) c = (a \<le> c)"
| "js_le PInf c = False"
| "js_le NInf c = True"
| "js_le NaN c = False"

text \<open>\<open>Math.max(0, x)\<close>.\<close>

fun js_max0 :: "jsnum \<Rightarrow> jsnum" where
  "js_max0 NaN = NaN"
| "js_max0 PInf = PInf"
| "js_max0 NInf = Fin 0"
| "js_max0 (Fin a) = Fin (max 0 a)"

section \<open>Letter grades and grade points\<close>

text \<open>
  \<open>backend/models/Submission.js\<close>, the chain of \<open>submissionSchema.pre('save')\<close>
  that turns \<open>this.grade.percentage\<close> into \<open>this.grade.letterGrade\<close>.  The design
  document calls the same conversion \<open>calculateLetterGrade(percentage)\<close> and does
  not show its body.
\<close>

definition calculateLetterGrade :: "jsnum \<Rightarrow> string" where
  "calculateLetterGrade percentage =
     (if js_ge percentage 97 then ''A+''
      else if js_ge percentage 93 then ''A''
      else if js_ge percentage 90 then ''A-''
      else if js_ge percentage 87 then ''B+''
      else if js_ge percentage 83 then ''B''
      else if js_ge percentage 80 then ''B-''
      else if js_ge percentage 77 then ''C+''
      else if js_ge percentage 73 then ''C''
      else if js_ge percentage 70 then ''C-''
      else if js_ge percentage 67 then ''D+''
      else if js_ge percentage 60 then ''D''
      else ''F'')"

text \<open>
  \<open>gradeSchema.pre('save')\<close> as the database design document quotes it: one chain
  that writes letter and grade point together, whole, and with no row at 97.
\<close>

definition design_letterGrade :: "jsnum \<Rightarrow> string" where
  "design_letterGrade p =
     (if js_ge p 93 then ''A''
      else if js_ge p 90 then ''A-''
      else if js_ge p 87 then ''B+''
      else if js_ge p 83 then ''B''
      else if js_ge p 80 then ''B-''
      else if js_ge p 77 then ''C+''
      else if js_ge p 73 then ''C''
      else if js_ge p 70 then ''C-''
      else if js_ge p 67 then ''D+''
      else if js_ge p 60 then ''D''
      else ''F'')"

definition design_gpa :: "jsnum \<Rightarrow> rat" where
  "design_gpa p =
     (if js_ge p 93 then 4
      else if js_ge p 90 then 37 / 10
      else if js_ge p 87 then 33 / 10
      else if js_ge p 83 then 3
      else if js_ge p 80 then 27 / 10
      else if js_ge p 77 then 23 / 10
      else if js_ge p 73 then 2
      else if js_ge p 70 then 17 / 10
      else if js_ge p 67 then 13 / 10
      else if js_ge p 60 then 1
      else 0)"

text \<open>
  \<open>gradeSchema.pre('save')\<close> as \<open>backend/models/Grade.js\<close> is quoted: the letter
  chain is shown with its rows at 97, 93 and 90 and then abbreviated
  (\<open>// ... etc\<close>); the rows it leaves out are those of the whole chain of the same
  hook in the database design document.
\<close>

definition gradeSchema_letterGrade :: "jsnum \<Rightarrow> string" where
  "gradeSchema_letterGrade percentage =
     (if js_ge percentage 97 then ''A+''
      else if js_ge percentage 93 then ''A''
      else if js_ge percentage 90 then ''A-''
      else design_letterGrade percentage)"

text \<open>The grade-point chain of the same quotation (4.0 scale), shown whole.\<close>

definition gradeSchema_gpa :: "jsnum \<Rightarrow> rat" where
  "gradeSchema_gpa percentage =
     (if js_ge percentage 97 then 4
      else if js_ge percentage 93 then 4
      else if js_ge percentage 90 then 37 / 10
      else if js_ge percentage 87 then 33 / 10
      else if js_ge percentage 83 then 3
      else if js_ge percentage 80 then 27 / 10
      else if js_ge percentage 77 then 23 / 10
      else if js_ge percentage 73 then 2
      else if js_ge percentage 70 then 17 / 10
      else if js_ge percentage 67 then 13 / 10
      else if js_ge percentage 60 then 1
      else 0)"

text \<open>
  A document of the \<open>grades\<close> collection.  \<open>percentage\<close> is \<open>None\<close> when the
  field is \<open>undefined\<close>.
\<close>

record grade =
  grade_id :: nat
  g_student :: nat
  g_course :: nat
  percentage :: "jsnum option"
  letterGrade :: string
  gpa :: rat
  isFinalized :: bool

text \<open>
  The hook of \<open>backend/models/Grade.js\<close>: nothing is derived while \<open>percentage\<close>
  is undefined.
\<close>

definition gradeSchema_pre_save :: "grade \<Rightarrow> grade" where
  "gradeSchema_pre_save g =
     (case percentage g of
        None \<Rightarrow> g
      | Some p \<Rightarrow> g\<lparr>letterGrade := gradeSchema_letterGrade p, gpa := gradeSchema_gpa p\<rparr>)"

text \<open>
  The hook of the database design document: it has no test for an undefined
  percentage, and a comparison with \<open>undefined\<close> is false, as one with \<open>NaN\<close>.
\<close>

definition gradeSchema_pre_save_design :: "grade \<Rightarrow> grade" where
  "gradeSchema_pre_save_design g =
     (let p = (case percentage g of None \<Rightarrow> NaN | Some p \<Rightarrow> p)
      in g\<lparr>letterGrade := design_letterGrade p, gpa := design_gpa p\<rparr>)"

text \<open>
  \<open>GET /api/grades/student/:studentId\<close>:
  \<^verbatim>\<open>const totalGPA = grades.reduce((sum, grade) => sum + grade.gpa, 0);\<close>
  \<^verbatim>\<open>const overallGPA = totalGPA / grades.length;\<close>
\<close>

definition overallGPA :: "grade list \<Rightarrow> jsnum" where
  "overallGPA grades =
     (let totalGPA = foldl (\<lambda>sum g. sum + gpa g) 0 grades
      in js_div totalGPA (of_nat (length grades)))"

section \<open>Documents and collections\<close>

text \<open>
  The answers of the routes, by kind.  The routes answer with an HTTP status and a
  message: 404 for a missing document, 403 "Course not approved yet", 400 "Course is
  full", 400 "Already enrolled" (the unique index on student and course), 400 "Late
  submissions not allowed", 400 "Grade is finalized".  \<open>ValidationError\<close> is a
  schema validator refusing a save, \<open>TypeError\<close> a property read on \<open>null\<close>,
  \<open>SubmissionsExistError\<close> the refusal to update an assignment that has
  submissions, and \<open>AlreadyTerminalError\<close> the refusal to drop an enrollment that
  is completed or dropped.
\<close>

datatype error =
    NotFoundError
  | CourseNotApprovedError
  | CourseFullError
  | DuplicateEnrollmentError
  | AlreadyTerminalError
  | DuplicateSessionError
  | DuplicateSubmissionError
  | NotPublishedError
  | NotEnrolledError
  | LateSubmissionRejectedError
  | SubmissionsExistError
  | AlreadyFinalizedError
  | ValidationError
  | TypeError

datatype enrollment_status = Enrolled | Completed | Dropped | Suspended

datatype attendance_status = Present | Absent | Late | Excused

datatype submission_status = Submitted | Graded | Returned | Resubmitted

text \<open>\<open>Course.js\<close>; the \<open>_id\<close> is the key of the collection.\<close>

record course =
  isApproved :: bool
  maxStudents :: int
  currentEnrollment :: int

text \<open>\<open>Enrollment.js\<close>, with the fields of the \<open>attendance\<close> subdocument inlined.\<close>

record enrollment =
  enrollment_id :: nat
  e_student :: nat
  e_course :: nat
  status :: enrollment_status
  totalClasses :: int
  attendedClasses :: int
  attendancePercentage :: jsnum
  completionDate :: "int option"

text \<open>\<open>Attendance.js\<close>: one document per course and date.\<close>

record attendance_session =
  att_course :: nat
  att_date :: int
  att_students :: "(nat \<times> attendance_status) list"

text \<open>\<open>Assignment.js\<close>; dates are milliseconds.\<close>

record assignment =
  a_course :: nat
  totalPoints :: rat
  dueDate :: int
  isPublished :: bool
  allowLateSubmission :: bool
  latePenalty :: rat

text \<open>The \<open>grade\<close> subdocument of a submission; \<open>None\<close> is \<open>undefined\<close>.\<close>

record submission_grade =
  points :: rat
  grade_percentage :: "jsnum option"
  grade_letterGrade :: "string option"

text \<open>\<open>Submission.js\<close>.\<close>

record submission =
  submission_id :: nat
  sub_assignment :: nat
  sub_student :: nat
  submittedAt :: int
  isLate :: bool
  sub_status :: submission_status
  sub_grade :: "submission_grade option"

text \<open>
  The database: the collections read by \<open>_id\<close> only are maps from the \<open>_id\<close>,
  the others are lists in insertion order.  \<open>nextId\<close> is the next fresh \<open>_id\<close>.
\<close>

record db =
  courses :: "nat \<rightharpoonup> course"
  enrollments :: "enrollment list"
  attendance :: "attendance_session list"
  assignments :: "nat \<rightharpoonup> assignment"
  submissions :: "submission list"
  grades :: "grade list"
  nextId :: nat

text \<open>
  \<open>findOne\<close> or \<open>findById\<close>, a change of the document found, and \<open>save()\<close>:
  the first document that matches is replaced, in its place.
\<close>

fun update_first :: "('a \<Rightarrow> bool) \<Rightarrow> ('a \<Rightarrow> 'a) \<Rightarrow> 'a list \<Rightarrow> 'a list" where
  "update_first P f [] = []"
| "update_first P f (x # xs) = (if P x then f x # xs else x # update_first P f xs)"

section \<open>Enrollments and the seat counter\<close>

text \<open>\<open>courseSchema.virtual('isFullyEnrolled')\<close>.\<close>

definition isFullyEnrolled :: "course \<Rightarrow> bool" where
  "isFullyEnrolled c = (currentEnrollment c \<ge> maxStudents c)"

text \<open>
  \<open>Course.findByIdAndUpdate(courseId, { $inc: { currentEnrollment: n } })\<close>;
  nothing is written when no course has the \<open>_id\<close>.
\<close>

definition inc_currentEnrollment :: "db \<Rightarrow> nat \<Rightarrow> int \<Rightarrow> db" where
  "inc_currentEnrollment s courseId n =
     (case courses s courseId of
        None \<Rightarrow> s
      | Some c \<Rightarrow>
          s\<lparr>courses := (courses s)(courseId \<mapsto> c\<lparr>currentEnrollment := currentEnrollment c + n\<rparr>)\<rparr>)"

text \<open>
  \<open>enrollmentSchema.pre('save')\<close> of \<open>backend/models/Enrollment.js\<close>: the
  percentage is derived once a class was held.
  \<^verbatim>\<open>if (this.attendance.totalClasses > 0) {\<close>
  \<^verbatim>\<open>  this.attendance.attendancePercentage =\<close>
  \<^verbatim>\<open>    (this.attendance.attendedClasses / this.attendance.totalClasses) * 100; }\<close>
\<close>

definition enrollmentSchema_pre_save :: "enrollment \<Rightarrow> enrollment" where
  "enrollmentSchema_pre_save e =
     (if totalClasses e > 0
      then e\<lparr>attendancePercentage :=
               fmul (fdiv (Fin (of_int (attendedClasses e))) (Fin (of_int (totalClasses e))))
                 (Fin 100)\<rparr>
      else e)"

text \<open>
  \<open>enrollmentSchema.pre('save')\<close> of the database design document, which runs at
  every save of an enrollment, a new one or not:
  \<^verbatim>\<open>const course = await Course.findById(this.course);\<close>
  \<^verbatim>\<open>if (!course) { throw new Error('Course not found'); }\<close>
  \<^verbatim>\<open>if (course.currentEnrollment >= course.maxStudents) {\<close>
  \<^verbatim>\<open>  throw new Error('Course is full'); }\<close>
\<close>

definition enrollmentSchema_pre_save_course :: "db \<Rightarrow> enrollment \<Rightarrow> error option" where
  "enrollmentSchema_pre_save_course s e =
     (case courses s (e_course e) of
        None \<Rightarrow> Some NotFoundError
      | Some c \<Rightarrow> if currentEnrollment c \<ge> maxStudents c then Some CourseFullError else None)"

text \<open>
  \<open>Enrollment.create\<close>: both hooks of the schema, then the insertion.
\<close>

definition create_enrollment :: "db \<Rightarrow> enrollment \<Rightarrow> error option \<times> db" where
  "create_enrollment s e =
     (case enrollmentSchema_pre_save_course s e of
        Some err \<Rightarrow> (Some err, s)
      | None \<Rightarrow>
          (None, s\<lparr>enrollments := enrollments s @ [enrollmentSchema_pre_save e],
                   nextId := Suc (nextId s)\<rparr>))"

text \<open>
  \<open>POST /api/enrollments\<close>, for an authenticated student:
  1. the course exists (404) and is approved (403); 2. the course is not full (400);
  3. the student has no enrollment document for the course, whatever its status (the
  unique index on student and course, 400); 4. the enrollment document is created with
  status \<open>enrolled\<close> and the attendance defaults; 5. \<open>currentEnrollment\<close> is
  incremented:
  \<^verbatim>\<open>const enrollment = await Enrollment.create({ student: req.user._id,\<close>
  \<^verbatim>\<open>  course: courseId, status: 'enrolled' });\<close>
  \<^verbatim>\<open>await Course.findByIdAndUpdate(courseId, { $inc: { currentEnrollment: 1 } });\<close>
  The notification of step 6 is not modelled.
\<close>

definition enroll :: "db \<Rightarrow> nat \<Rightarrow> nat \<Rightarrow> error option \<times> db" where
  "enroll s studentId courseId =
     (case courses s courseId of
        None \<Rightarrow> (Some NotFoundError, s)
      | Some c \<Rightarrow>
          if \<not> isApproved c then (Some CourseNotApprovedError, s)
          else if isFullyEnrolled c then (Some CourseFullError, s)
          else if list_ex (\<lambda>e. e_student e = studentId \<and> e_course e = courseId) (enrollments s)
          then (Some DuplicateEnrollmentError, s)
          else
            (case create_enrollment s
                    \<lparr>enrollment_id = nextId s, e_student = studentId, e_course = courseId,
                     status = Enrolled, totalClasses = 0, attendedClasses = 0,
                     attendancePercentage = Fin 0, completionDate = None\<rparr> of
               (Some err, s1) \<Rightarrow> (Some err, s1)
             | (None, s1) \<Rightarrow> (None, inc_currentEnrollment s1 courseId 1)))"

text \<open>
  Modelled from the spec: the decrement of the seat counter by \<open>drop\<close>, by 1 and
  with a floor at 0.
\<close>

definition dec_currentEnrollment :: "db \<Rightarrow> nat \<Rightarrow> db" where
  "dec_currentEnrollment s courseId =
     (case courses s courseId of
        None \<Rightarrow> s
      | Some c \<Rightarrow>
          s\<lparr>courses :=
              (courses s)(courseId \<mapsto> c\<lparr>currentEnrollment := max 0 (currentEnrollment c - 1)\<rparr>)\<rparr>)"

text \<open>
  Modelled from the spec: the handler of \<open>DELETE /api/enrollments/:id\<close>, of which
  the backend documentation gives four process steps and no code (set the status to
  \<open>dropped\<close>, decrement \<open>currentEnrollment\<close>, set the completion date, notify).
  The operation \<open>drop(enrollmentId)\<close> of the specification: it fails with
  NotFoundError if the enrollment is missing and with AlreadyTerminalError if its
  status is already completed or dropped; otherwise it sets the status to dropped and
  the completion date to now, and decrements \<open>currentEnrollment\<close> of the course.
  How the handler writes the enrollment is not shown; it is written here as an update
  that runs no save hook.
\<close>

definition drop_enrollment :: "db \<Rightarrow> nat \<Rightarrow> int \<Rightarrow> error option \<times> db" where
  "drop_enrollment s enrollmentId now =
     (case find (\<lambda>e. enrollment_id e = enrollmentId) (enrollments s) of
        None \<Rightarrow> (Some NotFoundError, s)
      | Some e \<Rightarrow>
          if status e = Completed \<or> status e = Dropped then (Some AlreadyTerminalError, s)
          else
            let s1 = s\<lparr>enrollments :=
                        update_first (\<lambda>x. enrollment_id x = enrollmentId)
                          (\<lambda>x. x\<lparr>status := Dropped, completionDate := Some now\<rparr>)
                          (enrollments s)\<rparr>
            in (None, dec_currentEnrollment s1 (e_course e)))"

text \<open>A request to the enrollment routes, and a sequence of requests served in order.\<close>

datatype enrollment_request = Enroll nat nat | Drop nat int

fun serve :: "db \<Rightarrow> enrollment_request \<Rightarrow> error option \<times> db" where
  "serve s (Enroll studentId courseId) = enroll s studentId courseId"
| "serve s (Drop enrollmentId now) = drop_enrollment s enrollmentId now"

fun serve_all :: "db \<Rightarrow> enrollment_request list \<Rightarrow> db" where
  "serve_all s [] = s"
| "serve_all s (r # rs) = serve_all (snd (serve s r)) rs"

text \<open>The number of enrollment documents of a course with status enrolled or completed.\<close>

definition occupied :: "db \<Rightarrow> nat \<Rightarrow> nat" where
  "occupied s courseId =
     length (filter (\<lambda>e. e_course e = courseId \<and> (status e = Enrolled \<or> status e = Completed))
               (enrollments s))"

text \<open>The seat invariant of one course: the counter is that number, within 0 and the capacity.\<close>

definition seats_consistent :: "db \<Rightarrow> nat \<Rightarrow> bool" where
  "seats_consistent s courseId =
     (case courses s courseId of
        None \<Rightarrow> True
      | Some c \<Rightarrow>
          currentEnrollment c = int (occupied s courseId)
          \<and> 0 \<le> currentEnrollment c \<and> currentEnrollment c \<le> maxStudents c)"

text \<open>
  A course as \<open>POST /api/courses\<close> creates it: the counter has its default 0, the
  capacity is not negative (the schema has \<open>min: 1\<close>), and no enrollment document
  names the course.
\<close>

definition new_course :: "db \<Rightarrow> nat \<Rightarrow> bool" where
  "new_course s courseId =
     ((case courses s courseId of
         None \<Rightarrow> False
       | Some c \<Rightarrow> currentEnrollment c = 0 \<and> 0 \<le> maxStudents c)
      \<and> list_all (\<lambda>e. e_course e \<noteq> courseId) (enrollments s))"

text \<open>
  No enrollment of the course is suspended.  Enrolling and dropping suspend nothing;
  only \<open>PUT /api/enrollments/:id\<close> does, a status update of which no process is
  documented.
\<close>

definition none_suspended :: "db \<Rightarrow> nat \<Rightarrow> bool" where
  "none_suspended s courseId =
     list_all (\<lambda>e. e_course e = courseId \<longrightarrow> status e \<noteq> Suspended) (enrollments s)"

section \<open>Attendance\<close>

text \<open>
  \<open>enrollment.save()\<close> of a document read from the collection: both hooks, then
  the write.
\<close>

definition save_enrollment :: "db \<Rightarrow> enrollment \<Rightarrow> error option \<times> db" where
  "save_enrollment s e =
     (case enrollmentSchema_pre_save_course s e of
        Some err \<Rightarrow> (Some err, s)
      | None \<Rightarrow>
          (None, s\<lparr>enrollments :=
                     update_first (\<lambda>x. enrollment_id x = enrollment_id e)
                       (\<lambda>x. enrollmentSchema_pre_save e) (enrollments s)\<rparr>))"

text \<open>
  The body of the loop over the students of a session, before the save:
  \<^verbatim>\<open>enrollment.attendance.totalClasses++;\<close>
  \<^verbatim>\<open>if (student.status === 'present' || student.status === 'late') {\<close>
  \<^verbatim>\<open>  enrollment.attendance.attendedClasses++; }\<close>
\<close>

definition count_class :: "attendance_status \<Rightarrow> enrollment \<Rightarrow> enrollment" where
  "count_class st e =
     (let e1 = e\<lparr>totalClasses := totalClasses e + 1\<rparr>
      in if st = Present \<or> st = Late
         then e1\<lparr>attendedClasses := attendedClasses e1 + 1\<rparr> else e1)"




section \<open>Submissions and their grading\<close>

text \<open>
  The percentage of \<open>points\<close> out of the total of the assignment, in both grading
  quotations and in the hook of the database design:
  \<^verbatim>\<open>(points / assignment.totalPoints) * 100\<close>
\<close>

definition rawPercentage :: "rat \<Rightarrow> assignment \<Rightarrow> jsnum" where
  "rawPercentage pts a = fmul (fdiv (Fin pts) (Fin (totalPoints a))) (Fin 100)"

text \<open>
  \<open>PUT /api/submissions/:id/grade\<close>, the grading calculation:
  \<^verbatim>\<open>const percentage = (points / assignment.totalPoints) * 100;\<close>
  \<^verbatim>\<open>if (submission.isLate && assignment.latePenalty > 0) {\<close>
  \<^verbatim>\<open>  const penaltyAmount = percentage * (assignment.latePenalty / 100);\<close>
  \<^verbatim>\<open>  finalPercentage = percentage - penaltyAmount; }\<close>
  Without a penalty the final percentage is the percentage.
\<close>

definition finalPercentage :: "rat \<Rightarrow> assignment \<Rightarrow> bool \<Rightarrow> jsnum" where
  "finalPercentage pts a late =
     (if late \<and> latePenalty a > 0
      then fsub (rawPercentage pts a)
             (fmul (rawPercentage pts a) (fdiv (Fin (latePenalty a)) (Fin 100)))
      else rawPercentage pts a)"

text \<open>
  \<open>submissionSchema.pre('save')\<close> as \<open>backend/models/Submission.js\<close> is quoted:
  the letter follows a percentage that is not \<open>undefined\<close>.
\<close>

definition submissionSchema_pre_save_letter :: "submission \<Rightarrow> submission" where
  "submissionSchema_pre_save_letter sub =
     (case sub_grade sub of
        None \<Rightarrow> sub
      | Some g \<Rightarrow>
          (case grade_percentage g of
             None \<Rightarrow> sub
           | Some p \<Rightarrow>
               sub\<lparr>sub_grade :=
                     Some (g\<lparr>grade_letterGrade := Some (calculateLetterGrade p)\<rparr>)\<rparr>))"

text \<open>
  The same hook as the code map sketches it (\<open>CALCULATING LETTER GRADE\<close>): the test
  is \<open>this.grade.percentage\<close>, which a percentage of 0 or \<open>NaN\<close> fails, and the
  chain starts at 93 with \<open>'A'\<close>, is shown down to 87 and then abbreviated
  (\<open>// ... etc\<close>); the rows it leaves out are those of the whole chain of
  \<open>backend/models/Submission.js\<close>.
\<close>

fun js_truthy :: "jsnum \<Rightarrow> bool" where
  "js_truthy (Fin a) = (a \<noteq> 0)"
| "js_truthy PInf = True"
| "js_truthy NInf = True"
| "js_truthy NaN = False"

definition sketch_letterGrade :: "jsnum \<Rightarrow> string" where
  "sketch_letterGrade p =
     (if js_ge p 93 then ''A''
      else if js_ge p 90 then ''A-''
      else if js_ge p 87 then ''B+''
      else calculateLetterGrade p)"

definition submissionSchema_pre_save_sketch :: "submission \<Rightarrow> submission" where
  "submissionSchema_pre_save_sketch sub =
     (case sub_grade sub of
        None \<Rightarrow> sub
      | Some g \<Rightarrow>
          (case grade_percentage g of
             None \<Rightarrow> sub
           | Some p \<Rightarrow>
               if js_truthy p
               then sub\<lparr>sub_grade :=
                          Some (g\<lparr>grade_letterGrade := Some (sketch_letterGrade p)\<rparr>)\<rparr>
               else sub))"

text \<open>
  \<open>submissionSchema.pre('save')\<close> as the database design document quotes it, on the
  assignment that \<open>Assignment.findById(this.assignment)\<close> found:
  \<^verbatim>\<open>this.isLate = this.submittedAt > assignment.dueDate;\<close>
  \<^verbatim>\<open>if (this.grade && this.grade.points) {\<close>
  \<^verbatim>\<open>  let percentage = (this.grade.points / assignment.totalPoints) * 100;\<close>
  \<^verbatim>\<open>  if (this.isLate && assignment.latePenalty > 0) {\<close>
  \<^verbatim>\<open>    percentage -= (percentage * (assignment.latePenalty / 100)); }\<close>
  \<^verbatim>\<open>  this.grade.percentage = Math.max(0, percentage);\<close>
  \<^verbatim>\<open>  this.grade.letterGrade = calculateLetterGrade(percentage); }\<close>
  Zero points are falsy, so nothing is derived from them.  The letter is taken from
  the percentage before \<open>Math.max\<close>.
\<close>

definition submissionSchema_pre_save :: "assignment \<Rightarrow> submission \<Rightarrow> submission" where
  "submissionSchema_pre_save a sub =
     (let sub1 = sub\<lparr>isLate := (submittedAt sub > dueDate a)\<rparr>
      in case sub_grade sub1 of
           None \<Rightarrow> sub1
         | Some g \<Rightarrow>
             if points g = 0 then sub1
             else
               sub1\<lparr>sub_grade :=
                      Some (g\<lparr>grade_percentage :=
                                Some (js_max0 (finalPercentage (points g) a (isLate sub1))),
                              grade_letterGrade :=
                                Some (calculateLetterGrade
                                        (finalPercentage (points g) a (isLate sub1)))\<rparr>)\<rparr>)"

text \<open>
  The three quoted hooks, as what \<open>save()\<close> runs before it writes.  The third
  reads the assignment, and a missing one makes the read of \<open>dueDate\<close> throw.
\<close>

type_synonym submission_hook = "db \<Rightarrow> submission \<Rightarrow> error + submission"

definition letter_hook :: submission_hook where
  "letter_hook s sub = Inr (submissionSchema_pre_save_letter sub)"

definition sketch_hook :: submission_hook where
  "sketch_hook s sub = Inr (submissionSchema_pre_save_sketch sub)"

definition design_hook :: submission_hook where
  "design_hook s sub =
     (case assignments s (sub_assignment sub) of
        None \<Rightarrow> Inl TypeError
      | Some a \<Rightarrow> Inr (submissionSchema_pre_save a sub))"

text \<open>
  The validators of the \<open>grade\<close> subdocument, run by \<open>save()\<close> before the hooks:
  \<open>points: { min: 0 }\<close>, \<open>percentage: { min: 0, max: 100 }\<close>.
\<close>

definition grade_valid :: "submission_grade \<Rightarrow> bool" where
  "grade_valid g =
     (0 \<le> points g
      \<and> (case grade_percentage g of
            None \<Rightarrow> True
          | Some p \<Rightarrow> js_ge p 0 \<and> js_le p 100))"

text \<open>\<open>submission.save()\<close> of a document read from the collection.\<close>

definition save_submission :: "submission_hook \<Rightarrow> db \<Rightarrow> submission \<Rightarrow> error option \<times> db" where
  "save_submission hook s sub =
     (if (case sub_grade sub of None \<Rightarrow> False | Some g \<Rightarrow> \<not> grade_valid g)
      then (Some ValidationError, s)
      else
        (case hook s sub of
           Inl e \<Rightarrow> (Some e, s)
         | Inr sub' \<Rightarrow>
             (None, s\<lparr>submissions :=
                        update_first (\<lambda>x. submission_id x = submission_id sub) (\<lambda>x. sub')
                          (submissions s)\<rparr>)))"

text \<open>
  \<open>POST /api/submissions\<close>, for an authenticated student: 1. the assignment is found;
  2. it is published; 3. the student is enrolled in its course; 4. the due date is
  checked and the late flag set:
  \<^verbatim>\<open>const isLate = now > dueDate;\<close>
  \<^verbatim>\<open>if (isLate && !assignment.allowLateSubmission) {\<close>
  \<^verbatim>\<open>  return res.status(400).json({ message: 'Late submissions not allowed' }); }\<close>
  6. the submission document is created (one per assignment and student, by the unique
  index), through the hook.
\<close>

definition submit :: "submission_hook \<Rightarrow> db \<Rightarrow> nat \<Rightarrow> nat \<Rightarrow> int \<Rightarrow> error option \<times> db" where
  "submit hook s assignmentId studentId now =
     (case assignments s assignmentId of
        None \<Rightarrow> (Some NotFoundError, s)
      | Some a \<Rightarrow>
          if \<not> isPublished a then (Some NotPublishedError, s)
          else if \<not> list_ex (\<lambda>e. e_student e = studentId \<and> e_course e = a_course a
                                  \<and> status e = Enrolled) (enrollments s)
          then (Some NotEnrolledError, s)
          else if now > dueDate a \<and> \<not> allowLateSubmission a
          then (Some LateSubmissionRejectedError, s)
          else if list_ex (\<lambda>x. sub_assignment x = assignmentId \<and> sub_student x = studentId)
                    (submissions s)
          then (Some DuplicateSubmissionError, s)
          else
            (case hook s \<lparr>submission_id = nextId s, sub_assignment = assignmentId,
                           sub_student = studentId, submittedAt = now,
                           isLate = (now > dueDate a), sub_status = Submitted,
                           sub_grade = None\<rparr> of
               Inl e \<Rightarrow> (Some e, s)
             | Inr sub \<Rightarrow>
                 (None, s\<lparr>submissions := submissions s @ [sub], nextId := Suc (nextId s)\<rparr>)))"

text \<open>
  The handler of \<open>PUT /api/submissions/:id/grade\<close> is quoted twice.
  \<open>GRADING SUBMISSION\<close> (located in \<open>backend/routes/submissions.js\<close>) stores the
  percentage of the points as it is and sets no status:
  \<^verbatim>\<open>submission.grade = { points: req.body.points,\<close>
  \<^verbatim>\<open>  percentage: (req.body.points / assignment.totalPoints) * 100, ... };\<close>
  \<^verbatim>\<open>await submission.save();  // Pre-save hook calculates letterGrade\<close>
  \<open>GRADING CALCULATION\<close>, with the process steps of the route, stores the final
  percentage of the grading calculation and sets the status \<open>graded\<close>.
\<close>

datatype grading_version = GradingSubmission | GradingCalculation

definition graded :: "grading_version \<Rightarrow> assignment \<Rightarrow> rat \<Rightarrow> submission \<Rightarrow> submission" where
  "graded version a pts sub =
     (case version of
        GradingSubmission \<Rightarrow>
          sub\<lparr>sub_grade :=
                Some \<lparr>points = pts, grade_percentage = Some (rawPercentage pts a),
                      grade_letterGrade = None\<rparr>\<rparr>
      | GradingCalculation \<Rightarrow>
          sub\<lparr>sub_grade :=
                Some \<lparr>points = pts,
                      grade_percentage = Some (finalPercentage pts a (isLate sub)),
                      grade_letterGrade = None\<rparr>,
              sub_status := Graded\<rparr>)"

text \<open>
  \<open>PUT /api/submissions/:id/grade\<close>, for the instructor of the course:
  \<open>submission.grade\<close> is replaced and the submission saved.  A missing submission
  or assignment is answered with 404.  Neither quotation reads
  \<open>allowLateSubmission\<close>.
\<close>

definition grade_submission ::
    "grading_version \<Rightarrow> submission_hook \<Rightarrow> db \<Rightarrow> nat \<Rightarrow> rat \<Rightarrow> error option \<times> db" where
  "grade_submission version hook s submissionId pts =
     (case find (\<lambda>x. submission_id x = submissionId) (submissions s) of
        None \<Rightarrow> (Some NotFoundError, s)
      | Some sub \<Rightarrow>
          (case assignments s (sub_assignment sub) of
             None \<Rightarrow> (Some NotFoundError, s)
           | Some a \<Rightarrow> save_submission hook s (graded version a pts sub)))"

text \<open>
  \<open>PUT /api/assignments/:id\<close>, for the instructor of the course, moving the due
  date.  Business rule: "Cannot update if submissions exist".  The validator of
  \<open>dueDate\<close>,
  \<^verbatim>\<open>validator: function(value) { return value && value > new Date(); }\<close>
  is documented as running on document creation, not on updates; \<open>validated\<close>
  says whether the update runs it.
\<close>

definition update_dueDate :: "bool \<Rightarrow> db \<Rightarrow> nat \<Rightarrow> int \<Rightarrow> int \<Rightarrow> error option \<times> db" where
  "update_dueDate validated s assignmentId d now =
     (case assignments s assignmentId of
        None \<Rightarrow> (Some NotFoundError, s)
      | Some a \<Rightarrow>
          if list_ex (\<lambda>x. sub_assignment x = assignmentId) (submissions s)
          then (Some SubmissionsExistError, s)
          else if validated \<and> \<not> d > now then (Some ValidationError, s)
          else (None, s\<lparr>assignments := (assignments s)(assignmentId \<mapsto> a\<lparr>dueDate := d\<rparr>)\<rparr>))"

text \<open>
  \<open>DELETE /api/assignments/:id\<close>.  Business rule: "Cannot delete if submissions
  exist".
\<close>

definition delete_assignment :: "db \<Rightarrow> nat \<Rightarrow> error option \<times> db" where
  "delete_assignment s assignmentId =
     (case assignments s assignmentId of
        None \<Rightarrow> (Some NotFoundError, s)
      | Some a \<Rightarrow>
          if list_ex (\<lambda>x. sub_assignment x = assignmentId) (submissions s)
          then (Some SubmissionsExistError, s)
          else (None, s\<lparr>assignments := (assignments s)(assignmentId := None)\<rparr>))"

text \<open>\<open>PUT /api/assignments/:id/publish\<close>: 1. set \<open>isPublished = true\<close>.\<close>

definition publish_assignment :: "db \<Rightarrow> nat \<Rightarrow> error option \<times> db" where
  "publish_assignment s assignmentId =
     (case assignments s assignmentId of
        None \<Rightarrow> (Some NotFoundError, s)
      | Some a \<Rightarrow>
          (None, s\<lparr>assignments := (assignments s)(assignmentId \<mapsto> a\<lparr>isPublished := True\<rparr>)\<rparr>))"

text \<open>
  A request to the submission and assignment routes, and a sequence of requests served
  in order.
\<close>

datatype submission_request =
    Submit nat nat int
  | Grade grading_version nat rat
  | MoveDueDate bool nat int int
  | DeleteAssignment nat
  | Publish nat

fun serve_submission :: "submission_hook \<Rightarrow> db \<Rightarrow> submission_request \<Rightarrow> error option \<times> db" where
  "serve_submission hook s (Submit assignmentId studentId now) =
     submit hook s assignmentId studentId now"
| "serve_submission hook s (Grade version submissionId pts) =
     grade_submission version hook s submissionId pts"
| "serve_submission hook s (MoveDueDate validated assignmentId d now) =
     update_dueDate validated s assignmentId d now"
| "serve_submission hook s (DeleteAssignment assignmentId) = delete_assignment s assignmentId"
| "serve_submission hook s (Publish assignmentId) = publish_assignment s assignmentId"

fun serve_submissions :: "submission_hook \<Rightarrow> db \<Rightarrow> submission_request list \<Rightarrow> db" where
  "serve_submissions hook s [] = s"
| "serve_submissions hook s (r # rs) = serve_submissions hook (snd (serve_submission hook s r)) rs"

text \<open>
  Every late flag is the comparison of the time of submission with the due date that
  the assignment has now.
\<close>

definition flags_current :: "db \<Rightarrow> bool" where
  "flags_current s =
     list_all
       (\<lambda>sub. case assignments s (sub_assignment sub) of
                 None \<Rightarrow> True
               | Some a \<Rightarrow> isLate sub = (submittedAt sub > dueDate a))
       (submissions s)"

section \<open>Course grades\<close>

text \<open>
  \<open>POST /api/grades\<close>, for the instructor of the course: 2. the grade document of
  the student and course is found or created; 3. a finalized one is refused
  (\<open>if (grade.isFinalized) return res.status(400)...\<close>); 4. the percentage is
  updated; 5. the letter grade and grade point follow in the hook of \<open>save()\<close>.
  A created document has the schema defaults \<open>'I'\<close>, 0 and \<open>false\<close>.
\<close>

definition upsertGrade :: "db \<Rightarrow> nat \<Rightarrow> nat \<Rightarrow> jsnum \<Rightarrow> error option \<times> db" where
  "upsertGrade s studentId courseId p =
     (case find (\<lambda>g. g_student g = studentId \<and> g_course g = courseId) (grades s) of
        None \<Rightarrow>
          (None, s\<lparr>grades := grades s @
                     [gradeSchema_pre_save
                        \<lparr>grade_id = nextId s, g_student = studentId, g_course = courseId,
                         percentage = Some p, letterGrade = ''I'', gpa = 0,
                         isFinalized = False\<rparr>],
                   nextId := Suc (nextId s)\<rparr>)
      | Some g \<Rightarrow>
          if isFinalized g then (Some AlreadyFinalizedError, s)
          else
            (None, s\<lparr>grades :=
                       update_first (\<lambda>g. g_student g = studentId \<and> g_course g = courseId)
                         (\<lambda>g. gradeSchema_pre_save (g\<lparr>percentage := Some p\<rparr>))
                         (grades s)\<rparr>))"

text \<open>
  \<open>PUT /api/grades/:id/finalize\<close>: \<open>grade.isFinalized = true; await grade.save()\<close>.
  A missing document is answered with 404.
\<close>

definition finalize :: "db \<Rightarrow> nat \<Rightarrow> error option \<times> db" where
  "finalize s gradeId =
     (case find (\<lambda>g. grade_id g = gradeId) (grades s) of
        None \<Rightarrow> (Some NotFoundError, s)
      | Some g \<Rightarrow>
          (None, s\<lparr>grades :=
                     update_first (\<lambda>g. grade_id g = gradeId)
                       (\<lambda>g. gradeSchema_pre_save (g\<lparr>isFinalized := True\<rparr>))
                       (grades s)\<rparr>))"

text \<open>
  \<open>gradeSchema.index({ student: 1, course: 1 }, { unique: true })\<close>: no two grade
  documents have the same student and course.
\<close>

definition grade_key :: "grade \<Rightarrow> nat \<times> nat" where
  "grade_key g = (g_student g, g_course g)"

definition unique_grades :: "db \<Rightarrow> bool" where
  "unique_grades s = distinct (map grade_key (grades s))"

text \<open>A request to the grade routes, and a sequence of requests served in order.\<close>

datatype grade_request = Upsert nat nat jsnum | Finalize nat

fun serve_grade :: "db \<Rightarrow> grade_request \<Rightarrow> error option \<times> db" where
  "serve_grade s (Upsert studentId courseId p) = upsertGrade s studentId courseId p"
| "serve_grade s (Finalize gradeId) = finalize s gradeId"

fun serve_grades :: "db \<Rightarrow> grade_request list \<Rightarrow> db" where
  "serve_grades s [] = s"
| "serve_grades s (r # rs) = serve_grades (snd (serve_grade s r)) rs"

text \<open>
  \<open>GET /api/grades/student/:studentId\<close>: \<open>Grade.find({ student: studentId })\<close>
  and the average of the grade points found.
\<close>

definition student_overallGPA :: "db \<Rightarrow> nat \<Rightarrow> jsnum" where
  "student_overallGPA s studentId =
     overallGPA (filter (\<lambda>g. g_student g = studentId) (grades s))"

section \<open>Example data\<close>

definition empty_db :: db where
  "empty_db =
     \<lparr>courses = Map.empty, enrollments = [], attendance = [], assignments = Map.empty,
      submissions = [], grades = [], nextId = 1\<rparr>"

text \<open>
  A course with two enrolled students, 7 and 8, and one published assignment of 100
  points, due at 10, with a late penalty of 10 percent; \<open>allow\<close> is its
  \<open>allowLateSubmission\<close>.
\<close>

definition term_db :: "bool \<Rightarrow> db" where
  "term_db allow =
     empty_db
       \<lparr>courses := [1 \<mapsto> \<lparr>isApproved = True, maxStudents = 30, currentEnrollment = 2\<rparr>],
        enrollments :=
          [\<lparr>enrollment_id = 1, e_student = 7, e_course = 1, status = Enrolled,
            totalClasses = 0, attendedClasses = 0, attendancePercentage = Fin 0,
            completionDate = None\<rparr>,
           \<lparr>enrollment_id = 2, e_student = 8, e_course = 1, status = Enrolled,
            totalClasses = 0, attendedClasses = 0, attendancePercentage = Fin 0,
            completionDate = None\<rparr>],
        assignments :=
          [1 \<mapsto> \<lparr>a_course = 1, totalPoints = 100, dueDate = 10, isPublished = True,
                   allowLateSubmission = allow, latePenalty = 10\<rparr>],
        nextId := 3\<rparr>"

text \<open>The same with a submission of student 7, handed in at 20 and flagged late.\<close>

definition late_db :: "bool \<Rightarrow> db" where
  "late_db allow =
     (term_db allow)
       \<lparr>submissions :=
          [\<lparr>submission_id = 3, sub_assignment = 1, sub_student = 7, submittedAt = 20,
            isLate = True, sub_status = Submitted, sub_grade = None\<rparr>],
        nextId := 4\<rparr>"

text \<open>An approved course with \<open>n\<close> seats and nobody enrolled.\<close>

definition seat_db :: "int \<Rightarrow> db" where
  "seat_db n =
     empty_db\<lparr>courses := [1 \<mapsto> \<lparr>isApproved = True, maxStudents = n, currentEnrollment = 0\<rparr>]\<rparr>"

text \<open>A course with one seat, taken by student 7.\<close>

definition full_db :: "bool \<Rightarrow> db" where
  "full_db approved =
     empty_db
       \<lparr>courses := [1 \<mapsto> \<lparr>isApproved = approved, maxStudents = 1, currentEnrollment = 1\<rparr>],
        enrollments :=
          [\<lparr>enrollment_id = 1, e_student = 7, e_course = 1, status = Enrolled,
            totalClasses = 0, attendedClasses = 0, attendancePercentage = Fin 0,
            completionDate = None\<rparr>],
        nextId := 2\<rparr>"


text \<open>Three course grades: two of student 7, one of them finalized, and one of student 8.\<close>

definition grades_db :: db where
  "grades_db =
     empty_db
       \<lparr>grades :=
          [\<lparr>grade_id = 1, g_student = 7, g_course = 1, percentage = Some (Fin 85),
            letterGrade = ''B'', gpa = 3, isFinalized = False\<rparr>,
           \<lparr>grade_id = 2, g_student = 7, g_course = 2, percentage = Some (Fin 95),
            letterGrade = ''A'', gpa = 4, isFinalized = True\<rparr>,
           \<lparr>grade_id = 3, g_student = 8, g_course = 1, percentage = Some (Fin 72),
            letterGrade = ''C-'', gpa = 17 / 10, isFinalized = False\<rparr>],
        nextId := 4\<rparr>"

section \<open>Properties\<close>

subsection \<open>Finding and replacing documents\<close>

lemma find_in_set: "find P xs = Some x \<Longrightarrow> x \<in> set xs \<and> P x"
  by (induction xs) (auto split: if_splits)

lemma find_append_Some: "find P xs = Some x \<Longrightarrow> find P (xs @ ys) = Some x"
  by (induction xs) (auto split: if_splits)

lemma find_update_first:
  "find P xs = Some x \<Longrightarrow> P (f x) \<Longrightarrow> find P (update_first P f xs) = Some (f x)"
  by (induction xs) (auto split: if_splits)

lemma find_update_first_other:
  "(\<And>x. P x \<Longrightarrow> \<not> Q x \<and> \<not> Q (f x)) \<Longrightarrow> find Q (update_first P f xs) = find Q xs"
  by (induction xs) auto

lemma find_update_first_found:
  "find P xs = Some x \<Longrightarrow> Q (f x) = Q x \<Longrightarrow> (Q x \<Longrightarrow> f x = x) \<Longrightarrow>
     find Q (update_first P f xs) = find Q xs"
  by (induction xs) (auto split: if_splits)

lemma find_update_first_same:
  "find P xs = Some x \<Longrightarrow> find Q xs = Some x \<Longrightarrow> Q (f x) \<Longrightarrow>
     find Q (update_first P f xs) = Some (f x)"
proof (induction xs)
  case Nil
  then show ?case by simp
next
  case (Cons y ys)
  show ?case
  proof (cases "P y")
    case True
    then show ?thesis using Cons.prems by simp
  next
    case False
    then have py: "find P ys = Some x" using Cons.prems(1) by simp
    have "\<not> Q y"
    proof
      assume "Q y"
      then have "y = x" using Cons.prems(2) by simp
      then show False using False find_in_set [OF py] by simp
    qed
    then show ?thesis using False Cons by simp
  qed
qed

lemma map_update_first:
  "(\<And>x. k (f x) = k x) \<Longrightarrow> map k (update_first P f xs) = map k xs"
  by (induction xs) auto

lemma map_update_first_found:
  "find P xs = Some x \<Longrightarrow> k (f x) = k x \<Longrightarrow> map k (update_first P f xs) = map k xs"
  by (induction xs) (auto split: if_splits)

lemma length_update_first [simp]: "length (update_first P f xs) = length xs"
  by (induction xs) auto

lemma filter_update_first:
  "find P xs = Some e \<Longrightarrow>
     int (length (filter Q (update_first P f xs))) =
       int (length (filter Q xs)) - of_bool (Q e) + of_bool (Q (f e))"
  by (induction xs) (auto split: if_splits)

lemma list_all_update_first:
  "list_all Q xs \<Longrightarrow> (\<And>x. Q x \<Longrightarrow> Q (f x)) \<Longrightarrow> list_all Q (update_first P f xs)"
  by (induction xs) auto

subsection \<open>Evaluating the arithmetic of doubles\<close>

lemma floor_rat_numeral [simp]:
  "\<lfloor>numeral a / numeral b :: rat\<rfloor> = numeral a div numeral b"
  using floor_divide_of_int_eq [of "numeral a" "numeral b", where ?'a = rat] by simp

lemma ceiling_rat_numeral [simp]:
  "\<lceil>numeral a / numeral b :: rat\<rceil> = - (- numeral a div numeral b)"
  using floor_divide_of_int_eq [of "- numeral a" "numeral b", where ?'a = rat]
  by (simp add: ceiling_def)

lemmas fl_eval =
  fl_def overflow_def ulp_of_def round_to_def ilog2_def pow2_def round_even_def
  bit_length.simps

subsection \<open>The seat counter\<close>

lemma occupied_inc [simp]: "occupied (inc_currentEnrollment s c n) c' = occupied s c'"
  by (simp add: occupied_def inc_currentEnrollment_def split: option.splits)

lemma occupied_dec [simp]: "occupied (dec_currentEnrollment s c) c' = occupied s c'"
  by (simp add: occupied_def dec_currentEnrollment_def split: option.splits)

lemma enrollments_inc [simp]:
  "enrollments (inc_currentEnrollment s c n) = enrollments s"
  by (simp add: inc_currentEnrollment_def split: option.splits)

lemma enrollments_dec [simp]:
  "enrollments (dec_currentEnrollment s c) = enrollments s"
  by (simp add: dec_currentEnrollment_def split: option.splits)

lemma new_course_consistent:
  assumes "new_course s c"
  shows "seats_consistent s c \<and> none_suspended s c"
proof -
  have no: "list_all (\<lambda>e. e_course e \<noteq> c) (enrollments s)"
    using assms by (simp add: new_course_def)
  then have "filter (\<lambda>e. e_course e = c \<and> (status e = Enrolled \<or> status e = Completed))
               (enrollments s) = []"
    by (auto simp add: filter_empty_conv list_all_iff)
  then have "occupied s c = 0" by (simp add: occupied_def)
  moreover have "none_suspended s c"
    using no by (auto simp add: none_suspended_def list_all_iff)
  ultimately show ?thesis
    using assms by (auto simp add: new_course_def seats_consistent_def split: option.splits)
qed

lemma enroll_cases:
  assumes "enroll s studentId c = (err, s')"
  shows "(err \<noteq> None \<and> s' = s)
    \<or> (\<exists>co. err = None \<and> courses s c = Some co \<and> isApproved co \<and> \<not> isFullyEnrolled co
          \<and> s' = inc_currentEnrollment
                 (s\<lparr>enrollments := enrollments s @
                      [\<lparr>enrollment_id = nextId s, e_student = studentId, e_course = c,
                        status = Enrolled, totalClasses = 0, attendedClasses = 0,
                        attendancePercentage = Fin 0, completionDate = None\<rparr>],
                    nextId := Suc (nextId s)\<rparr>) c 1)"
proof (cases "courses s c")
  case None
  then show ?thesis using assms by (auto simp add: enroll_def)
next
  case (Some co)
  have full: "enrollmentSchema_pre_save_course s e = None"
    if "\<not> isFullyEnrolled co" "e_course e = c" for e
    using that Some by (simp add: enrollmentSchema_pre_save_course_def isFullyEnrolled_def)
  show ?thesis
    using assms Some full
    by (auto simp add: enroll_def create_enrollment_def enrollmentSchema_pre_save_def
        split: if_splits)
qed

lemma enroll_seats:
  assumes "seats_consistent s c'"
  shows "seats_consistent (snd (enroll s studentId c)) c'"
proof -
  obtain err s' where res: "enroll s studentId c = (err, s')"
    by (cases "enroll s studentId c")
  from enroll_cases [OF res] show ?thesis
  proof
    assume "err \<noteq> None \<and> s' = s"
    then show ?thesis using assms res by simp
  next
    assume "\<exists>co. err = None \<and> courses s c = Some co \<and> isApproved co \<and> \<not> isFullyEnrolled co
          \<and> s' = inc_currentEnrollment
                 (s\<lparr>enrollments := enrollments s @
                      [\<lparr>enrollment_id = nextId s, e_student = studentId, e_course = c,
                        status = Enrolled, totalClasses = 0, attendedClasses = 0,
                        attendancePercentage = Fin 0, completionDate = None\<rparr>],
                    nextId := Suc (nextId s)\<rparr>) c 1"
    then show ?thesis
      using assms res
      by (auto simp add: seats_consistent_def occupied_def inc_currentEnrollment_def
          isFullyEnrolled_def split: option.splits)
  qed
qed

lemma enroll_none_suspended:
  assumes "none_suspended s c'"
  shows "none_suspended (snd (enroll s studentId c)) c'"
proof -
  obtain err s' where res: "enroll s studentId c = (err, s')"
    by (cases "enroll s studentId c")
  from enroll_cases [OF res] show ?thesis
    using assms res by (auto simp add: none_suspended_def)
qed

lemma drop_none_suspended:
  assumes "none_suspended s c'"
  shows "none_suspended (snd (drop_enrollment s eid now)) c'"
proof -
  have "list_all (\<lambda>e. e_course e = c' \<longrightarrow> status e \<noteq> Suspended)
          (update_first (\<lambda>x. enrollment_id x = eid)
             (\<lambda>x. x\<lparr>status := Dropped, completionDate := Some now\<rparr>) (enrollments s))"
    using assms unfolding none_suspended_def by (rule list_all_update_first) simp
  then show ?thesis
    using assms
    by (auto simp add: drop_enrollment_def Let_def none_suspended_def split: option.splits)
qed

lemma drop_seats:
  assumes con: "seats_consistent s c'" and sus: "none_suspended s c'"
  shows "seats_consistent (snd (drop_enrollment s eid now)) c'"
proof (cases "find (\<lambda>e. enrollment_id e = eid) (enrollments s)")
  case None
  then show ?thesis using con by (simp add: drop_enrollment_def)
next
  case (Some e)
  let ?Q = "\<lambda>e. e_course e = c' \<and> (status e = Enrolled \<or> status e = Completed)"
  let ?xs = "update_first (\<lambda>x. enrollment_id x = eid)
               (\<lambda>x. x\<lparr>status := Dropped, completionDate := Some now\<rparr>) (enrollments s)"
  show ?thesis
  proof (cases "status e = Completed \<or> status e = Dropped")
    case True
    then show ?thesis using con Some by (simp add: drop_enrollment_def)
  next
    case False
    have cnt: "int (length (filter ?Q ?xs)) = int (occupied s c') - of_bool (?Q e)"
      using filter_update_first [OF Some, of ?Q] by (simp add: occupied_def)
    show ?thesis
    proof (cases "e_course e = c'")
      case True
      have "e \<in> set (enrollments s)" using find_in_set [OF Some] by simp
      then have "status e \<noteq> Suspended"
        using sus True by (auto simp add: none_suspended_def list_all_iff)
      then have en: "status e = Enrolled" using False by (cases "status e") simp_all
      have cnt1: "int (length (filter ?Q ?xs)) = int (occupied s c') - 1"
        using cnt True en by simp
      then have pos: "1 \<le> int (occupied s c')"
        using of_nat_0_le_iff [of "length (filter ?Q ?xs)", where ?'a = int] by linarith
      show ?thesis
        using con Some False True cnt1 pos
        by (auto simp add: drop_enrollment_def Let_def seats_consistent_def occupied_def
            dec_currentEnrollment_def split: option.splits)
    next
      case other: False
      have cnt0: "length (filter ?Q ?xs) = occupied s c'"
        using cnt other by simp
      show ?thesis
        using con Some False other cnt0
        by (auto simp add: drop_enrollment_def Let_def seats_consistent_def occupied_def
            dec_currentEnrollment_def split: option.splits)
    qed
  qed
qed

lemma serve_all_seats:
  assumes "seats_consistent s courseId" and "none_suspended s courseId"
  shows "seats_consistent (serve_all s requests) courseId
    \<and> none_suspended (serve_all s requests) courseId"
  using assms
proof (induction requests arbitrary: s)
  case Nil
  then show ?case by simp
next
  case (Cons r rs)
  have "seats_consistent (snd (serve s r)) courseId \<and> none_suspended (snd (serve s r)) courseId"
  proof (cases r)
    case (Enroll studentId c)
    then show ?thesis using Cons.prems by (simp add: enroll_seats enroll_none_suspended)
  next
    case (Drop eid now)
    then show ?thesis using Cons.prems by (simp add: drop_seats drop_none_suspended)
  qed
  then show ?case using Cons.IH by simp
qed

lemma enroll_approved:
  assumes "\<forall>co. courses s c = Some co \<longrightarrow> 0 < currentEnrollment co \<longrightarrow> isApproved co"
  shows "\<forall>co. courses (snd (enroll s studentId c1)) c = Some co \<longrightarrow>
           0 < currentEnrollment co \<longrightarrow> isApproved co"
proof -
  obtain err s' where res: "enroll s studentId c1 = (err, s')"
    by (cases "enroll s studentId c1")
  from enroll_cases [OF res] show ?thesis
  proof
    assume "err \<noteq> None \<and> s' = s"
    then show ?thesis using assms res by simp
  next
    assume "\<exists>co. err = None \<and> courses s c1 = Some co \<and> isApproved co \<and> \<not> isFullyEnrolled co
          \<and> s' = inc_currentEnrollment
                 (s\<lparr>enrollments := enrollments s @
                      [\<lparr>enrollment_id = nextId s, e_student = studentId, e_course = c1,
                        status = Enrolled, totalClasses = 0, attendedClasses = 0,
                        attendancePercentage = Fin 0, completionDate = None\<rparr>],
                    nextId := Suc (nextId s)\<rparr>) c1 1"
    then obtain co1 where co1: "courses s c1 = Some co1" "isApproved co1"
      and s': "courses s' = (courses s)(c1 \<mapsto> co1\<lparr>currentEnrollment := currentEnrollment co1 + 1\<rparr>)"
      by (auto simp add: inc_currentEnrollment_def)
    show ?thesis using assms co1 s' res by auto
  qed
qed

lemma drop_approved:
  assumes "\<forall>co. courses s c = Some co \<longrightarrow> 0 < currentEnrollment co \<longrightarrow> isApproved co"
  shows "\<forall>co. courses (snd (drop_enrollment s eid now)) c = Some co \<longrightarrow>
           0 < currentEnrollment co \<longrightarrow> isApproved co"
proof -
  have dec: "\<forall>co. courses (dec_currentEnrollment s1 c1) c = Some co \<longrightarrow>
               0 < currentEnrollment co \<longrightarrow> isApproved co"
    if "courses s1 = courses s" for s1 c1
    using assms that by (auto simp add: dec_currentEnrollment_def split: option.splits if_splits)
  show ?thesis
  proof (cases "find (\<lambda>e. enrollment_id e = eid) (enrollments s)")
    case None
    then show ?thesis using assms by (simp add: drop_enrollment_def)
  next
    case (Some e)
    show ?thesis
    proof (cases "status e = Completed \<or> status e = Dropped")
      case True
      then show ?thesis using assms Some by (simp add: drop_enrollment_def)
    next
      case False
      then show ?thesis
        using Some dec [of "s\<lparr>enrollments :=
                        update_first (\<lambda>x. enrollment_id x = eid)
                          (\<lambda>x. x\<lparr>status := Dropped, completionDate := Some now\<rparr>)
                          (enrollments s)\<rparr>" "e_course e"]
        by (simp add: drop_enrollment_def Let_def)
    qed
  qed
qed

lemma serve_all_approved:
  assumes "\<forall>co. courses s c = Some co \<longrightarrow> 0 < currentEnrollment co \<longrightarrow> isApproved co"
  shows "\<forall>co. courses (serve_all s requests) c = Some co \<longrightarrow>
           0 < currentEnrollment co \<longrightarrow> isApproved co"
  using assms
proof (induction requests arbitrary: s)
  case Nil
  then show ?case by simp
next
  case (Cons r rs)
  have step: "\<forall>co. courses (snd (serve s r)) c = Some co \<longrightarrow>
          0 < currentEnrollment co \<longrightarrow> isApproved co"
  proof (cases r)
    case (Enroll studentId c1)
    then show ?thesis using enroll_approved [OF Cons.prems] by simp
  next
    case (Drop eid now)
    then show ?thesis using drop_approved [OF Cons.prems] by simp
  qed
  show ?case using Cons.IH [OF step] by simp
qed

text \<open>
  C1.  From a course as it is created, or from any database in which the counter of
  the course is the number of its enrollments with status enrolled or completed, within
  0 and \<open>maxStudents\<close>, and none of its enrollments is suspended, every sequence of
  enroll and drop requests, failed ones included, leaves the counter equal to that
  number and within 0 and \<open>maxStudents\<close>: after each of its requests, and so at its
  end.
\<close>

theorem seat_counter_invariant:
  assumes "new_course s courseId \<or> (seats_consistent s courseId \<and> none_suspended s courseId)"
  shows "seats_consistent (serve_all s (take n requests)) courseId
    \<and> seats_consistent (serve_all s requests) courseId"
proof -
  have "seats_consistent s courseId \<and> none_suspended s courseId"
    using assms new_course_consistent by blast
  then show ?thesis using serve_all_seats by blast
qed

text \<open>
  The scenario of one seat: student 7 enrolls, student 8 is refused for the full
  course, the enrollment of 7 is dropped, a second drop of it is refused, and 8
  enrolls.
\<close>

theorem seat_counter_invariant_witness:
  "new_course (seat_db 1) 1
   \<and> seats_consistent
        (serve_all (seat_db 1) [Enroll 7 1, Enroll 8 1, Drop 1 5, Drop 1 6, Enroll 8 1]) 1
   \<and> fst (serve (serve_all (seat_db 1) [Enroll 7 1]) (Enroll 8 1)) = Some CourseFullError
   \<and> fst (serve (serve_all (seat_db 1) [Enroll 7 1, Enroll 8 1, Drop 1 5]) (Drop 1 6))
       = Some AlreadyTerminalError
   \<and> map (\<lambda>rs. map_option currentEnrollment (courses (serve_all (seat_db 1) rs) 1))
        [[Enroll 7 1], [Enroll 7 1, Enroll 8 1], [Enroll 7 1, Enroll 8 1, Drop 1 5],
         [Enroll 7 1, Enroll 8 1, Drop 1 5, Drop 1 6],
         [Enroll 7 1, Enroll 8 1, Drop 1 5, Drop 1 6, Enroll 8 1]]
       = [Some 1, Some 1, Some 0, Some 0, Some 1]"
  using seat_counter_invariant
    [of "seat_db 1" 1 3 "[Enroll 7 1, Enroll 8 1, Drop 1 5, Drop 1 6, Enroll 8 1]"]
  by (simp add: seat_db_def empty_db_def new_course_def seats_consistent_def occupied_def
      enroll_def create_enrollment_def enrollmentSchema_pre_save_course_def
      enrollmentSchema_pre_save_def drop_enrollment_def inc_currentEnrollment_def
      dec_currentEnrollment_def isFullyEnrolled_def Let_def)

text \<open>
  The floor of the decrement acts where the counter is 0 and an enrollment is dropped
  all the same, as for a suspended enrollment: the counter stays at 0.
\<close>

lemma drop_floor:
  "map_option currentEnrollment
     (courses
        (snd (drop_enrollment
                ((seat_db 1)
                   \<lparr>enrollments :=
                      [\<lparr>enrollment_id = 1, e_student = 7, e_course = 1, status = Suspended,
                        totalClasses = 0, attendedClasses = 0, attendancePercentage = Fin 0,
                        completionDate = None\<rparr>]\<rparr>) 1 5)) 1) = Some 0"
  by (simp add: seat_db_def empty_db_def drop_enrollment_def dec_currentEnrollment_def Let_def)

text \<open>
  A course that enroll and drop requests have filled is approved: with the counter of a
  new course at 0, a positive counter means an enrollment was accepted, which the
  route does for an approved course only.
\<close>

lemma filled_course_is_approved:
  assumes "new_course s courseId"
    and "courses (serve_all s requests) courseId = Some c" and "0 < currentEnrollment c"
  shows "isApproved c"
proof -
  have "\<forall>co. courses s courseId = Some co \<longrightarrow> 0 < currentEnrollment co \<longrightarrow> isApproved co"
    using assms(1) by (auto simp add: new_course_def)
  then show ?thesis using serve_all_approved assms(2,3) by blast
qed

text \<open>
  C2.  Enrolling into a course whose \<open>currentEnrollment\<close> equals \<open>maxStudents\<close>
  fails, for every student, and leaves the database as it was: no enrollment document
  is created and the counter is not incremented.  The answer is "Course is full"; only
  for a course that is not approved, the earlier check of the route answers first.  The
  hook of the enrollment schema answers "Course is full" for such a course at every
  save of an enrollment of it.
\<close>

theorem enroll_full:
  assumes "courses s courseId = Some c" and "currentEnrollment c = maxStudents c"
  shows "(isApproved c \<longrightarrow> enroll s studentId courseId = (Some CourseFullError, s))
    \<and> (\<not> isApproved c \<longrightarrow> enroll s studentId courseId = (Some CourseNotApprovedError, s))
    \<and> snd (enroll s studentId courseId) = s
    \<and> (e_course e = courseId \<longrightarrow> enrollmentSchema_pre_save_course s e = Some CourseFullError)"
  using assms by (simp add: enroll_def isFullyEnrolled_def enrollmentSchema_pre_save_course_def)

theorem enroll_full_witness:
  "map_option (\<lambda>c. isApproved c \<and> currentEnrollment c = maxStudents c)
     (courses (full_db True) 1) = Some True
   \<and> enroll (full_db True) 8 1 = (Some CourseFullError, full_db True)
   \<and> enrollmentSchema_pre_save_course (full_db True) (hd (enrollments (full_db True)))
       = Some CourseFullError"
  using enroll_full [of "full_db True" 1 "the (courses (full_db True) 1)" 8
      "hd (enrollments (full_db True))"]
  by (simp add: full_db_def empty_db_def)

subsection \<open>Attendance\<close>

lemma count_class_key [simp]:
  "e_student (count_class st e) = e_student e" "e_course (count_class st e) = e_course e"
  "enrollment_id (count_class st e) = enrollment_id e"
  by (simp_all add: count_class_def Let_def)

lemma count_class_totals:
  "totalClasses (count_class st e) = totalClasses e + 1
   \<and> attendedClasses (count_class st e) =
       attendedClasses e + (if st = Present \<or> st = Late then 1 else 0)"
  by (simp add: count_class_def Let_def)

text \<open>
  Where the save of the loop goes through, the enrollment is replaced by one with
  \<open>totalClasses\<close> one higher, \<open>attendedClasses\<close> one higher exactly for the
  status present or late, and the percentage attendedClasses / totalClasses * 100 in
  the arithmetic of doubles.
\<close>

lemma save_enrollment_summary:
  assumes "save_enrollment s (count_class st e) = (None, s')"
    and "find (\<lambda>x. enrollment_id x = enrollment_id e) (enrollments s) = Some e"
    and "0 \<le> totalClasses e"
  shows "\<exists>e'. find (\<lambda>x. enrollment_id x = enrollment_id e) (enrollments s') = Some e'
     \<and> totalClasses e' = totalClasses e + 1
     \<and> attendedClasses e' = attendedClasses e + (if st = Present \<or> st = Late then 1 else 0)
     \<and> attendancePercentage e' =
         fmul (fdiv (Fin (of_int (attendedClasses e'))) (Fin (of_int (totalClasses e'))))
           (Fin 100)"
proof -
  let ?e' = "enrollmentSchema_pre_save (count_class st e)"
  have s': "enrollments s' =
      update_first (\<lambda>x. enrollment_id x = enrollment_id e) (\<lambda>x. ?e') (enrollments s)"
    using assms(1) by (auto simp add: save_enrollment_def split: option.splits)
  have pos: "totalClasses (count_class st e) > 0"
    using assms(3) count_class_totals [of st e] by simp
  have id: "enrollment_id ?e' = enrollment_id e"
    by (simp add: enrollmentSchema_pre_save_def)
  have "find (\<lambda>x. enrollment_id x = enrollment_id e) (enrollments s') = Some ?e'"
    unfolding s' using assms(2) id by (rule find_update_first)
  moreover have "totalClasses ?e' = totalClasses e + 1
     \<and> attendedClasses ?e' = attendedClasses e + (if st = Present \<or> st = Late then 1 else 0)"
    by (simp add: enrollmentSchema_pre_save_def count_class_def Let_def)
  moreover have "attendancePercentage ?e' =
         fmul (fdiv (Fin (of_int (attendedClasses ?e'))) (Fin (of_int (totalClasses ?e'))))
           (Fin 100)"
    using pos by (simp add: enrollmentSchema_pre_save_def)
  ultimately show ?thesis by blast
qed


subsection \<open>Grading a submission\<close>

lemma find_submission_id:
  "find (\<lambda>x. submission_id x = sid) xs = Some sub \<Longrightarrow> submission_id sub = sid"
  by (induction xs) (auto split: if_splits)

text \<open>
  With a penalty, the final percentage of the grading calculation is
  raw - raw * (latePenalty / 100), each operation rounded to the nearest double.
\<close>

lemma finalPercentage_late:
  "0 < latePenalty a \<Longrightarrow>
     finalPercentage pts a True =
       fsub (rawPercentage pts a)
         (fmul (rawPercentage pts a) (fdiv (Fin (latePenalty a)) (Fin 100)))"
  by (simp add: finalPercentage_def)

text \<open>
  The route of the grading calculation with the hook of
  \<open>backend/models/Submission.js\<close> stores the final percentage and its letter,
  where the percentage is within the bounds of the schema.
\<close>

lemma grading_calculation_stores:
  assumes "find (\<lambda>x. submission_id x = sid) (submissions s) = Some sub"
    and "assignments s (sub_assignment sub) = Some a"
    and "0 \<le> pts"
    and "js_ge (finalPercentage pts a (isLate sub)) 0"
    and "js_le (finalPercentage pts a (isLate sub)) 100"
  shows "\<exists>s'. grade_submission GradingCalculation letter_hook s sid pts = (None, s')
           \<and> find (\<lambda>x. submission_id x = sid) (submissions s') =
               Some (sub\<lparr>sub_grade :=
                           Some \<lparr>points = pts,
                                 grade_percentage = Some (finalPercentage pts a (isLate sub)),
                                 grade_letterGrade =
                                   Some (calculateLetterGrade
                                           (finalPercentage pts a (isLate sub)))\<rparr>,
                         sub_status := Graded\<rparr>)"
  using assms find_submission_id [OF assms(1)]
  by (simp add: grade_submission_def graded_def save_submission_def grade_valid_def
      letter_hook_def submissionSchema_pre_save_letter_def find_update_first)


text \<open>
  The last bit can decide the letter.  For 20 points of 30 and a penalty of 10 percent
  the exact value of raw - raw * (latePenalty / 100) is 60, a "D"; the doubles give
  59.99999999999999, an "F".
\<close>

lemma late_penalty_rounding:
  "finalPercentage 20
     \<lparr>a_course = 1, totalPoints = 30, dueDate = 10, isPublished = True,
      allowLateSubmission = True, latePenalty = 10\<rparr> True
     = Fin (8444249301319679 / 140737488355328)
   \<and> calculateLetterGrade (Fin (8444249301319679 / 140737488355328)) = ''F''
   \<and> (20 / 30 * 100 - 20 / 30 * 100 * (10 / 100) :: rat) = 60
   \<and> calculateLetterGrade (Fin 60) = ''D''"
  by (simp add: finalPercentage_def rawPercentage_def calculateLetterGrade_def fl_eval)

text \<open>
  \<open>Math.max(0, percentage)\<close> of the hook of the database design document acts
  only on a percentage below 0, which takes a penalty above 100 percent: the stored
  percentage is then 0, and the letter that of the negative percentage.
\<close>

lemma design_hook_floor:
  "sub_grade
     (submissionSchema_pre_save
        \<lparr>a_course = 1, totalPoints = 100, dueDate = 10, isPublished = True,
         allowLateSubmission = True, latePenalty = 150\<rparr>
        \<lparr>submission_id = 3, sub_assignment = 1, sub_student = 7, submittedAt = 20,
         isLate = True, sub_status = Submitted,
         sub_grade = Some \<lparr>points = 80, grade_percentage = None, grade_letterGrade = None\<rparr>\<rparr>)
   = Some \<lparr>points = 80, grade_percentage = Some (Fin 0), grade_letterGrade = Some ''F''\<rparr>
   \<and> finalPercentage 80
        \<lparr>a_course = 1, totalPoints = 100, dueDate = 10, isPublished = True,
         allowLateSubmission = True, latePenalty = 150\<rparr> True = Fin (- 40)"
  by (simp add: submissionSchema_pre_save_def finalPercentage_def rawPercentage_def
      calculateLetterGrade_def Let_def fl_eval)

subsection \<open>Course grades\<close>

lemma gradeSchema_pre_save_key [simp]:
  "g_student (gradeSchema_pre_save g) = g_student g"
  "g_course (gradeSchema_pre_save g) = g_course g"
  "grade_id (gradeSchema_pre_save g) = grade_id g"
  "isFinalized (gradeSchema_pre_save g) = isFinalized g"
  "percentage (gradeSchema_pre_save g) = percentage g"
  by (simp_all add: gradeSchema_pre_save_def split: option.splits)

lemma gradeSchema_pre_save_idem:
  "gradeSchema_pre_save (gradeSchema_pre_save g) = gradeSchema_pre_save g"
  by (simp add: gradeSchema_pre_save_def split: option.splits)

lemma isFinalized_again: "isFinalized g \<Longrightarrow> g\<lparr>isFinalized := True\<rparr> = g"
  by (cases g) simp

lemma unique_key:
  assumes "distinct (map grade_key xs)" and "x \<in> set xs" and "y \<in> set xs"
    and "grade_key x = grade_key y"
  shows "x = y"
  using assms by (meson distinct_map inj_on_def)

text \<open>The state after a finalize, as later requests keep it.\<close>

lemma serve_grade_keeps_finalized:
  assumes u: "unique_grades s"
    and f: "find (\<lambda>g. g_student g = st \<and> g_course g = c) (grades s) = Some gF"
    and fin: "isFinalized gF" and hk: "gradeSchema_pre_save gF = gF"
  shows "unique_grades (snd (serve_grade s r))
    \<and> find (\<lambda>g. g_student g = st \<and> g_course g = c) (grades (snd (serve_grade s r))) = Some gF"
proof (cases r)
  case (Upsert st' c' p)
  let ?Q' = "\<lambda>g. g_student g = st' \<and> g_course g = c'"
  show ?thesis
  proof (cases "find ?Q' (grades s)")
    case None
    then have "(st', c') \<notin> set (map grade_key (grades s))"
      by (auto simp add: find_None_iff grade_key_def)
    then show ?thesis
      using u f None Upsert
      by (auto simp add: upsertGrade_def unique_grades_def grade_key_def find_append_Some)
  next
    case (Some g')
    show ?thesis
    proof (cases "isFinalized g'")
      case True
      then show ?thesis using Some Upsert u f by (simp add: upsertGrade_def)
    next
      case False
      let ?f = "\<lambda>g. gradeSchema_pre_save (g\<lparr>percentage := Some p\<rparr>)"
      have keys: "map grade_key (update_first ?Q' ?f (grades s)) = map grade_key (grades s)"
        by (rule map_update_first) (simp add: grade_key_def)
      have notQ: "\<not> (g_student g' = st \<and> g_course g' = c)"
      proof
        assume q: "g_student g' = st \<and> g_course g' = c"
        have "g' = gF"
          using unique_key [of "grades s" g' gF] u find_in_set [OF Some] find_in_set [OF f] q
          by (simp add: unique_grades_def grade_key_def)
        then show False using False fin by simp
      qed
      have "find (\<lambda>g. g_student g = st \<and> g_course g = c) (update_first ?Q' ?f (grades s))
            = find (\<lambda>g. g_student g = st \<and> g_course g = c) (grades s)"
        using notQ by (intro find_update_first_found [OF Some]) simp_all
      then show ?thesis
        using Some Upsert False u f keys by (simp add: upsertGrade_def unique_grades_def)
    qed
  qed
next
  case (Finalize gid)
  let ?P = "\<lambda>g. grade_id g = gid"
  let ?f = "\<lambda>g. gradeSchema_pre_save (g\<lparr>isFinalized := True\<rparr>)"
  show ?thesis
  proof (cases "find ?P (grades s)")
    case None
    then show ?thesis using Finalize u f by (simp add: finalize_def)
  next
    case (Some g')
    have keys: "map grade_key (update_first ?P ?f (grades s)) = map grade_key (grades s)"
      by (rule map_update_first) (simp add: grade_key_def)
    have same: "?f g' = g'" if q: "g_student g' = st \<and> g_course g' = c"
    proof -
      have "g' = gF"
        using unique_key [of "grades s" g' gF] u find_in_set [OF Some] find_in_set [OF f] q
        by (simp add: unique_grades_def grade_key_def)
      then show ?thesis using fin hk by (simp add: isFinalized_again)
    qed
    have "find (\<lambda>g. g_student g = st \<and> g_course g = c) (update_first ?P ?f (grades s))
          = find (\<lambda>g. g_student g = st \<and> g_course g = c) (grades s)"
      using same by (intro find_update_first_found [OF Some]) simp_all
    then show ?thesis
      using Some Finalize u f keys by (simp add: finalize_def unique_grades_def)
  qed
qed

lemma serve_grades_keeps_finalized:
  assumes "unique_grades s"
    and "find (\<lambda>g. g_student g = st \<and> g_course g = c) (grades s) = Some gF"
    and "isFinalized gF" and "gradeSchema_pre_save gF = gF"
  shows "find (\<lambda>g. g_student g = st \<and> g_course g = c) (grades (serve_grades s rs)) = Some gF"
  using assms
proof (induction rs arbitrary: s)
  case Nil
  then show ?case by simp
next
  case (Cons r rs)
  from serve_grade_keeps_finalized [OF Cons.prems, of r]
  show ?case using Cons.IH Cons.prems(3,4) by simp
qed

text \<open>
  C5.  \<open>upsertGrade\<close> on a student and course whose grade is finalized is answered
  "Grade is finalized" and leaves the database as it is.  Under the unique index on
  student and course, once \<open>finalize\<close> has succeeded on a grade, and whatever
  grade requests are served after it, \<open>upsertGrade\<close> on the student and course of
  that grade is so refused; the stored grade of the pair, with its percentage and
  letter, is the one that \<open>finalize\<close> left.
\<close>

theorem finalized_grade_locked:
  fixes s :: db and gradeId :: nat and g :: grade
    and requests :: "grade_request list" and p :: jsnum
  assumes "unique_grades s"
    and "find (\<lambda>g. grade_id g = gradeId) (grades s) = Some g"
  defines "s1 \<equiv> snd (finalize s gradeId)"
  defines "s2 \<equiv> serve_grades s1 requests"
  defines "stored \<equiv> (\<lambda>s. find (\<lambda>x. g_student x = g_student g \<and> g_course x = g_course g) (grades s))"
  shows "(\<forall>s0 g0 st c. find (\<lambda>x. g_student x = st \<and> g_course x = c) (grades s0) = Some g0
              \<and> isFinalized g0 \<longrightarrow> upsertGrade s0 st c p = (Some AlreadyFinalizedError, s0))
     \<and> fst (finalize s gradeId) = None
     \<and> upsertGrade s2 (g_student g) (g_course g) p = (Some AlreadyFinalizedError, s2)
     \<and> stored s2 = stored s1
     \<and> map_option isFinalized (stored s2) = Some True
     \<and> map_option percentage (stored s2) = Some (percentage g)
     \<and> map_option letterGrade (stored s2) = map_option letterGrade (stored s1)"
proof -
  let ?Q = "\<lambda>x. g_student x = g_student g \<and> g_course x = g_course g"
  let ?f = "\<lambda>g. gradeSchema_pre_save (g\<lparr>isFinalized := True\<rparr>)"
  have g_in: "g \<in> set (grades s)" using find_in_set [OF assms(2)] by simp
  obtain g0 where g0: "find ?Q (grades s) = Some g0"
    using g_in by (cases "find ?Q (grades s)") (auto simp add: find_None_iff)
  have "g0 = g"
    using unique_key [of "grades s" g0 g] assms(1) find_in_set [OF g0] g_in
    by (simp add: unique_grades_def grade_key_def)
  then have fq: "find ?Q (grades s) = Some g" using g0 by simp
  have ok: "fst (finalize s gradeId) = None"
    using assms(2) by (simp add: finalize_def)
  have g1: "grades s1 = update_first (\<lambda>g. grade_id g = gradeId) ?f (grades s)"
    using assms(2) by (simp add: s1_def finalize_def)
  have st1: "stored s1 = Some (?f g)"
    unfolding stored_def g1 using assms(2) fq by (rule find_update_first_same) simp
  have "map grade_key (grades s1) = map grade_key (grades s)"
    unfolding g1 by (rule map_update_first) (simp add: grade_key_def)
  then have u1: "unique_grades s1" using assms(1) by (simp add: unique_grades_def)
  have st2: "stored s2 = Some (?f g)"
    unfolding stored_def s2_def
    using u1 st1 [unfolded stored_def]
    by (rule serve_grades_keeps_finalized) (simp_all add: gradeSchema_pre_save_idem)
  have up: "upsertGrade s2 (g_student g) (g_course g) p = (Some AlreadyFinalizedError, s2)"
    using st2 by (simp add: upsertGrade_def stored_def)
  have refused: "upsertGrade s0 st c p = (Some AlreadyFinalizedError, s0)"
    if "find (\<lambda>x. g_student x = st \<and> g_course x = c) (grades s0) = Some g0 \<and> isFinalized g0"
    for s0 g0 st c
    using that by (simp add: upsertGrade_def)
  show ?thesis using ok up st1 st2 refused by auto
qed

theorem finalized_grade_locked_witness:
  "unique_grades grades_db
   \<and> fst (finalize grades_db 1) = None
   \<and> upsertGrade
        (serve_grades (snd (finalize grades_db 1))
           [Upsert 7 1 (Fin 50), Finalize 1, Upsert 8 1 (Fin 60), Upsert 9 1 (Fin 70)])
        7 1 (Fin 40)
      = (Some AlreadyFinalizedError,
         serve_grades (snd (finalize grades_db 1))
           [Upsert 7 1 (Fin 50), Finalize 1, Upsert 8 1 (Fin 60), Upsert 9 1 (Fin 70)])
   \<and> map (\<lambda>g. (g_student g, g_course g, percentage g, letterGrade g, isFinalized g))
        (grades (serve_grades (snd (finalize grades_db 1))
           [Upsert 7 1 (Fin 50), Finalize 1, Upsert 8 1 (Fin 60), Upsert 9 1 (Fin 70)]))
      = [(7, 1, Some (Fin 85), ''B'', True), (7, 2, Some (Fin 95), ''A'', True),
         (8, 1, Some (Fin 60), ''D'', False), (9, 1, Some (Fin 70), ''C-'', False)]"
  using finalized_grade_locked [where s = grades_db and gradeId = 1
      and g = "hd (grades grades_db)" and p = "Fin 40" and requests =
        "[Upsert 7 1 (Fin 50), Finalize 1, Upsert 8 1 (Fin 60), Upsert 9 1 (Fin 70)]"]
  by (simp add: grades_db_def empty_db_def unique_grades_def grade_key_def finalize_def
      upsertGrade_def gradeSchema_pre_save_def gradeSchema_letterGrade_def
      design_letterGrade_def gradeSchema_gpa_def)

subsection \<open>The letter tables\<close>

text \<open>
  The quoted chains, compared on every value a number can take (the infinities and
  \<open>NaN\<close> included).  The chain of \<open>backend/models/Grade.js\<close> is that of
  \<open>backend/models/Submission.js\<close>.  The chain of the grade hook in the database
  design document and the chain of the code map's sketch of the submission hook are
  one chain too, which is the former with every "A+" replaced by "A".  The grade points
  of the two grade hooks are the same.
\<close>

lemma letter_chains:
  "gradeSchema_letterGrade p = calculateLetterGrade p
   \<and> sketch_letterGrade p = design_letterGrade p
   \<and> design_letterGrade p = (if js_ge p 97 then ''A'' else calculateLetterGrade p)
   \<and> design_gpa p = gradeSchema_gpa p"
  by (cases p)
    (simp_all add: gradeSchema_letterGrade_def calculateLetterGrade_def sketch_letterGrade_def
      design_letterGrade_def design_gpa_def gradeSchema_gpa_def)


text \<open>
  C7, as amended.  On a grade document with the percentage \<open>p\<close>, both quoted
  versions of the hook of the grade schema write the grade point 4.0 on all of
  [93, 100) and the letter "A" on [93, 97).  On [97, 100) the hook as quoted for
  \<open>backend/models/Grade.js\<close> writes "A+", and the hook as the database design
  document quotes it writes "A".  On [0, 60) both write "F" and 0.0, and at the
  boundaries 93, 90 and 60 both write "A" and 4.0, "A-" and 3.7, "D" and 1.0.
\<close>

theorem grade_table_ranges:
  fixes g :: grade and p :: rat
  defines "saved \<equiv> (\<lambda>p. gradeSchema_pre_save (g\<lparr>percentage := Some (Fin p)\<rparr>))"
  defines "designed \<equiv> (\<lambda>p. gradeSchema_pre_save_design (g\<lparr>percentage := Some (Fin p)\<rparr>))"
  shows "(93 \<le> p \<and> p < 97 \<longrightarrow>
      letterGrade (saved p) = ''A'' \<and> gpa (saved p) = 4
      \<and> letterGrade (designed p) = ''A'' \<and> gpa (designed p) = 4)
   \<and> (97 \<le> p \<and> p < 100 \<longrightarrow>
      letterGrade (saved p) = ''A+'' \<and> gpa (saved p) = 4
      \<and> letterGrade (designed p) = ''A'' \<and> gpa (designed p) = 4)
   \<and> (0 \<le> p \<and> p < 60 \<longrightarrow>
      letterGrade (saved p) = ''F'' \<and> gpa (saved p) = 0
      \<and> letterGrade (designed p) = ''F'' \<and> gpa (designed p) = 0)
   \<and> letterGrade (saved 93) = ''A'' \<and> gpa (saved 93) = 4
   \<and> letterGrade (designed 93) = ''A'' \<and> gpa (designed 93) = 4
   \<and> letterGrade (saved 90) = ''A-'' \<and> gpa (saved 90) = 37 / 10
   \<and> letterGrade (designed 90) = ''A-'' \<and> gpa (designed 90) = 37 / 10
   \<and> letterGrade (saved 60) = ''D'' \<and> gpa (saved 60) = 1
   \<and> letterGrade (designed 60) = ''D'' \<and> gpa (designed 60) = 1
   \<and> calculateLetterGrade (Fin p) = letterGrade (saved p)"
  by (simp add: saved_def designed_def gradeSchema_pre_save_def gradeSchema_pre_save_design_def
      gradeSchema_letterGrade_def design_letterGrade_def gradeSchema_gpa_def design_gpa_def
      calculateLetterGrade_def)

theorem grade_table_ranges_witness:
  "(93::rat) \<le> 95 \<and> (95::rat) < 97
   \<and> letterGrade (gradeSchema_pre_save ((hd (grades grades_db))\<lparr>percentage := Some (Fin 95)\<rparr>))
       = ''A''
   \<and> gpa (gradeSchema_pre_save ((hd (grades grades_db))\<lparr>percentage := Some (Fin 95)\<rparr>)) = 4
   \<and> (97::rat) \<le> 99 \<and> (99::rat) < 100
   \<and> letterGrade (gradeSchema_pre_save ((hd (grades grades_db))\<lparr>percentage := Some (Fin 99)\<rparr>))
       = ''A+''
   \<and> letterGrade
        (gradeSchema_pre_save_design ((hd (grades grades_db))\<lparr>percentage := Some (Fin 99)\<rparr>))
       = ''A''
   \<and> (0::rat) \<le> 42 \<and> (42::rat) < 60
   \<and> letterGrade (gradeSchema_pre_save ((hd (grades grades_db))\<lparr>percentage := Some (Fin 42)\<rparr>))
       = ''F''
   \<and> gpa (gradeSchema_pre_save_design ((hd (grades grades_db))\<lparr>percentage := Some (Fin 42)\<rparr>))
       = 0"
  using grade_table_ranges [where g = "hd (grades grades_db)" and p = 95]
    grade_table_ranges [where g = "hd (grades grades_db)" and p = 99]
    grade_table_ranges [where g = "hd (grades grades_db)" and p = 42]
  by simp

text \<open>
  C7 as stated fails on the hook it cites: 98 lies in [93, 100), and the hook as quoted
  for \<open>backend/models/Grade.js\<close> writes "A+" there, not "A".
\<close>

theorem grade_table_A_counterexample:
  "(93::rat) \<le> 98 \<and> (98::rat) < 100
   \<and> letterGrade
        (gradeSchema_pre_save
           \<lparr>grade_id = 1, g_student = 7, g_course = 1, percentage = Some (Fin 98),
            letterGrade = ''I'', gpa = 0, isFinalized = False\<rparr>) = ''A+''
   \<and> letterGrade
        (gradeSchema_pre_save
           \<lparr>grade_id = 1, g_student = 7, g_course = 1, percentage = Some (Fin 98),
            letterGrade = ''I'', gpa = 0, isFinalized = False\<rparr>) \<noteq> ''A''
   \<and> gpa
        (gradeSchema_pre_save
           \<lparr>grade_id = 1, g_student = 7, g_course = 1, percentage = Some (Fin 98),
            letterGrade = ''I'', gpa = 0, isFinalized = False\<rparr>) = 4"
  by (simp add: gradeSchema_pre_save_def gradeSchema_letterGrade_def gradeSchema_gpa_def)

subsection \<open>Late submissions\<close>

text \<open>
  C8, as amended.  A late submission to an assignment that does not allow late
  submissions is refused when it is handed in ("Late submissions not allowed"), and
  nothing is stored.  The grade route has no such check: in either quoted version and
  under every quoted hook it never answers with that error.
\<close>

theorem late_rejected_at_submission:
  "(assignments s assignmentId = Some a \<and> isPublished a
      \<and> list_ex (\<lambda>e. e_student e = studentId \<and> e_course e = a_course a \<and> status e = Enrolled)
            (enrollments s)
      \<and> now > dueDate a \<and> \<not> allowLateSubmission a
    \<longrightarrow> submit hook s assignmentId studentId now = (Some LateSubmissionRejectedError, s))
   \<and> fst (grade_submission version letter_hook s submissionId pts)
       \<noteq> Some LateSubmissionRejectedError
   \<and> fst (grade_submission version design_hook s submissionId pts)
       \<noteq> Some LateSubmissionRejectedError
   \<and> fst (grade_submission version sketch_hook s submissionId pts)
       \<noteq> Some LateSubmissionRejectedError"
  by (auto simp add: submit_def grade_submission_def save_submission_def letter_hook_def
      design_hook_def sketch_hook_def split: option.splits)

theorem late_rejected_at_submission_witness:
  "submit design_hook (term_db False) 1 8 20 = (Some LateSubmissionRejectedError, term_db False)
   \<and> fst (grade_submission GradingCalculation design_hook (late_db False) 3 80)
       \<noteq> Some LateSubmissionRejectedError
   \<and> fst (grade_submission GradingSubmission letter_hook (late_db False) 3 80)
       \<noteq> Some LateSubmissionRejectedError"
  using late_rejected_at_submission [of "term_db False" 1
      "the (assignments (term_db False) 1)" 8 20 design_hook GradingCalculation 3 80]
    late_rejected_at_submission [of "late_db False" 1 _ 8 20 design_hook GradingCalculation 3 80]
    late_rejected_at_submission [of "late_db False" 1 _ 8 20 design_hook GradingSubmission 3 80]
  by (simp add: term_db_def empty_db_def)

text \<open>
  C8 as stated fails: the submission of \<open>late_db False\<close> is late, its assignment
  does not allow late submissions, and the grade route stores a grade for it, in either
  quoted version and under every quoted hook.
\<close>

theorem grading_late_disallowed_counterexample:
  "map isLate (submissions (late_db False)) = [True]
   \<and> map_option allowLateSubmission (assignments (late_db False) 1) = Some False
   \<and> fst (grade_submission GradingCalculation letter_hook (late_db False) 3 80) = None
   \<and> fst (grade_submission GradingCalculation design_hook (late_db False) 3 80) = None
   \<and> fst (grade_submission GradingCalculation sketch_hook (late_db False) 3 80) = None
   \<and> fst (grade_submission GradingSubmission letter_hook (late_db False) 3 80) = None
   \<and> fst (grade_submission GradingSubmission design_hook (late_db False) 3 80) = None
   \<and> fst (grade_submission GradingSubmission sketch_hook (late_db False) 3 80) = None
   \<and> map sub_grade
        (submissions (snd (grade_submission GradingCalculation design_hook (late_db False) 3 80)))
       = [Some \<lparr>points = 80, grade_percentage = Some (Fin 72), grade_letterGrade = Some ''C-''\<rparr>]
   \<and> map sub_grade
        (submissions (snd (grade_submission GradingSubmission letter_hook (late_db False) 3 80)))
       = [Some \<lparr>points = 80, grade_percentage = Some (Fin 80), grade_letterGrade = Some ''B-''\<rparr>]"
  by (simp add: late_db_def term_db_def empty_db_def grade_submission_def graded_def
      save_submission_def grade_valid_def letter_hook_def design_hook_def sketch_hook_def
      submissionSchema_pre_save_def submissionSchema_pre_save_letter_def
      submissionSchema_pre_save_sketch_def finalPercentage_def rawPercentage_def
      calculateLetterGrade_def sketch_letterGrade_def Let_def fl_eval)

subsection \<open>The late flag\<close>

lemma serve_submissions_append:
  "serve_submissions hook s (rs1 @ rs2) = serve_submissions hook (serve_submissions hook s rs1) rs2"
  by (induction rs1 arbitrary: s) simp_all

lemma submit_cases:
  assumes "submit hook s assignmentId studentId now = (err, s')"
  shows "(err \<noteq> None \<and> s' = s)
    \<or> (\<exists>a sub. err = None \<and> assignments s assignmentId = Some a
          \<and> hook s \<lparr>submission_id = nextId s, sub_assignment = assignmentId,
                      sub_student = studentId, submittedAt = now,
                      isLate = (now > dueDate a), sub_status = Submitted,
                      sub_grade = None\<rparr> = Inr sub
          \<and> s' = s\<lparr>submissions := submissions s @ [sub], nextId := Suc (nextId s)\<rparr>)"
proof (cases "assignments s assignmentId")
  case None
  then show ?thesis using assms by (auto simp add: submit_def)
next
  case (Some a)
  show ?thesis
  proof (cases "hook s \<lparr>submission_id = nextId s, sub_assignment = assignmentId,
                      sub_student = studentId, submittedAt = now,
                      isLate = (now > dueDate a), sub_status = Submitted,
                      sub_grade = None\<rparr>")
    case (Inl e)
    then show ?thesis using assms Some by (auto simp add: submit_def split: if_splits)
  next
    case (Inr sub)
    then show ?thesis using assms Some by (auto simp add: submit_def split: if_splits)
  qed
qed

lemma grade_cases:
  assumes "grade_submission version hook s sid pts = (err, s')"
  shows "s' = s
    \<or> (\<exists>a sub sub'. find (\<lambda>x. submission_id x = sid) (submissions s) = Some sub
          \<and> assignments s (sub_assignment sub) = Some a
          \<and> hook s (graded version a pts sub) = Inr sub'
          \<and> s' = s\<lparr>submissions :=
                      update_first (\<lambda>x. submission_id x = sid) (\<lambda>x. sub') (submissions s)\<rparr>)"
proof (cases "find (\<lambda>x. submission_id x = sid) (submissions s)")
  case None
  then show ?thesis using assms by (simp add: grade_submission_def)
next
  case (Some sub)
  note sub = Some
  have id: "submission_id sub = sid" using sub by (rule find_submission_id)
  show ?thesis
  proof (cases "assignments s (sub_assignment sub)")
    case None
    then show ?thesis using assms sub by (simp add: grade_submission_def)
  next
    case (Some a)
    have gid: "submission_id (graded version a pts sub) = sid"
      using id by (cases version) (simp_all add: graded_def)
    show ?thesis
    proof (cases "hook s (graded version a pts sub)")
      case (Inl e)
      then show ?thesis
        using assms sub Some by (simp add: grade_submission_def save_submission_def split: if_splits)
    next
      case (Inr sub')
      then show ?thesis
        using assms sub Some gid
        by (auto simp add: grade_submission_def save_submission_def split: if_splits)
    qed
  qed
qed

lemma graded_keeps [simp]:
  "isLate (graded version a pts sub) = isLate sub"
  "submittedAt (graded version a pts sub) = submittedAt sub"
  "sub_assignment (graded version a pts sub) = sub_assignment sub"
  by (cases version; simp add: graded_def)+

lemma update_dueDate_submissions [simp]:
  "submissions (snd (update_dueDate validated s assignmentId d now)) = submissions s"
  by (simp add: update_dueDate_def split: option.splits)

lemma delete_assignment_submissions [simp]:
  "submissions (snd (delete_assignment s assignmentId)) = submissions s"
  by (simp add: delete_assignment_def split: option.splits)

lemma publish_assignment_submissions [simp]:
  "submissions (snd (publish_assignment s assignmentId)) = submissions s"
  by (simp add: publish_assignment_def split: option.splits)

text \<open>A hook that writes no late flag.\<close>

lemma serve_submission_keeps_flag:
  assumes keeps: "\<And>s sub sub'. hook s sub = Inr sub' \<Longrightarrow> isLate sub' = isLate sub"
  shows "map isLate (take (length (submissions s)) (submissions (snd (serve_submission hook s r))))
      = map isLate (submissions s)"
proof (cases r)
  case (Submit assignmentId studentId now)
  obtain err s' where res: "submit hook s assignmentId studentId now = (err, s')"
    by (cases "submit hook s assignmentId studentId now")
  from submit_cases [OF res] show ?thesis using Submit res by auto
next
  case (Grade version sid pts)
  obtain err s' where res: "grade_submission version hook s sid pts = (err, s')"
    by (cases "grade_submission version hook s sid pts")
  from grade_cases [OF res] show ?thesis
  proof
    assume "s' = s"
    then show ?thesis using Grade res by simp
  next
    assume "\<exists>a sub sub'. find (\<lambda>x. submission_id x = sid) (submissions s) = Some sub
          \<and> assignments s (sub_assignment sub) = Some a
          \<and> hook s (graded version a pts sub) = Inr sub'
          \<and> s' = s\<lparr>submissions :=
                      update_first (\<lambda>x. submission_id x = sid) (\<lambda>x. sub') (submissions s)\<rparr>"
    then obtain a sub sub' where f: "find (\<lambda>x. submission_id x = sid) (submissions s) = Some sub"
      and h: "hook s (graded version a pts sub) = Inr sub'"
      and s': "s' = s\<lparr>submissions :=
                      update_first (\<lambda>x. submission_id x = sid) (\<lambda>x. sub') (submissions s)\<rparr>"
      by blast
    have "isLate sub' = isLate sub" using keeps [OF h] by simp
    then have "map isLate (update_first (\<lambda>x. submission_id x = sid) (\<lambda>x. sub') (submissions s))
        = map isLate (submissions s)"
      using f by (intro map_update_first_found [OF f]) simp
    then show ?thesis using Grade res s' by simp
  qed
next
  case (MoveDueDate validated assignmentId d now)
  then show ?thesis by simp
next
  case (DeleteAssignment assignmentId)
  then show ?thesis by simp
next
  case (Publish assignmentId)
  then show ?thesis by simp
qed

text \<open>The hook of the database design document, on flags that are current.\<close>

lemma flags_current_member:
  assumes "flags_current s" and "find P (submissions s) = Some sub"
    and "assignments s (sub_assignment sub) = Some a"
  shows "isLate sub = (submittedAt sub > dueDate a)"
proof -
  have "sub \<in> set (submissions s)" using find_in_set [OF assms(2)] by simp
  then show ?thesis using assms(1,3) by (auto simp add: flags_current_def list_all_iff)
qed

lemma design_hook_flag:
  assumes "design_hook s sub = Inr sub'"
  shows "\<exists>a. assignments s (sub_assignment sub) = Some a
     \<and> isLate sub' = (submittedAt sub > dueDate a)
     \<and> submittedAt sub' = submittedAt sub \<and> sub_assignment sub' = sub_assignment sub"
  using assms
  by (auto simp add: design_hook_def submissionSchema_pre_save_def Let_def
      split: option.splits if_splits)

lemma serve_submission_design:
  assumes cur: "flags_current s"
  shows "flags_current (snd (serve_submission design_hook s r))
    \<and> map isLate (take (length (submissions s))
                    (submissions (snd (serve_submission design_hook s r))))
      = map isLate (submissions s)"
proof (cases r)
  case (Submit assignmentId studentId now)
  obtain err s' where res: "submit design_hook s assignmentId studentId now = (err, s')"
    by (cases "submit design_hook s assignmentId studentId now")
  from submit_cases [OF res] show ?thesis
  proof
    assume "err \<noteq> None \<and> s' = s"
    then show ?thesis using Submit res cur by simp
  next
    assume "\<exists>a sub. err = None \<and> assignments s assignmentId = Some a
          \<and> design_hook s \<lparr>submission_id = nextId s, sub_assignment = assignmentId,
                      sub_student = studentId, submittedAt = now,
                      isLate = (now > dueDate a), sub_status = Submitted,
                      sub_grade = None\<rparr> = Inr sub
          \<and> s' = s\<lparr>submissions := submissions s @ [sub], nextId := Suc (nextId s)\<rparr>"
    then obtain a sub where a: "assignments s assignmentId = Some a"
      and h: "design_hook s \<lparr>submission_id = nextId s, sub_assignment = assignmentId,
                      sub_student = studentId, submittedAt = now,
                      isLate = (now > dueDate a), sub_status = Submitted,
                      sub_grade = None\<rparr> = Inr sub"
      and s': "s' = s\<lparr>submissions := submissions s @ [sub], nextId := Suc (nextId s)\<rparr>"
      by blast
    from design_hook_flag [OF h] a
    have "isLate sub = (submittedAt sub > dueDate a) \<and> sub_assignment sub = assignmentId"
      by auto
    then have "flags_current s'"
      using cur a by (simp add: s' flags_current_def)
    then show ?thesis using Submit res s' by simp
  qed
next
  case (Grade version sid pts)
  obtain err s' where res: "grade_submission version design_hook s sid pts = (err, s')"
    by (cases "grade_submission version design_hook s sid pts")
  from grade_cases [OF res] show ?thesis
  proof
    assume "s' = s"
    then show ?thesis using Grade res cur by simp
  next
    assume "\<exists>a sub sub'. find (\<lambda>x. submission_id x = sid) (submissions s) = Some sub
          \<and> assignments s (sub_assignment sub) = Some a
          \<and> design_hook s (graded version a pts sub) = Inr sub'
          \<and> s' = s\<lparr>submissions :=
                      update_first (\<lambda>x. submission_id x = sid) (\<lambda>x. sub') (submissions s)\<rparr>"
    then obtain a sub sub' where f: "find (\<lambda>x. submission_id x = sid) (submissions s) = Some sub"
      and a: "assignments s (sub_assignment sub) = Some a"
      and h: "design_hook s (graded version a pts sub) = Inr sub'"
      and s': "s' = s\<lparr>submissions :=
                      update_first (\<lambda>x. submission_id x = sid) (\<lambda>x. sub') (submissions s)\<rparr>"
      by blast
    from design_hook_flag [OF h] a
    have new: "isLate sub' = (submittedAt sub > dueDate a)"
      "submittedAt sub' = submittedAt sub" "sub_assignment sub' = sub_assignment sub"
      by auto
    have old: "isLate sub = (submittedAt sub > dueDate a)"
      using cur f a by (rule flags_current_member)
    have same: "isLate sub' = isLate sub" using new(1) old by simp
    have flags: "map isLate (update_first (\<lambda>x. submission_id x = sid) (\<lambda>x. sub') (submissions s))
        = map isLate (submissions s)"
      using same by (intro map_update_first_found [OF f]) simp
    have "list_all
       (\<lambda>sub. case assignments s (sub_assignment sub) of
                 None \<Rightarrow> True
               | Some a \<Rightarrow> isLate sub = (submittedAt sub > dueDate a))
       (update_first (\<lambda>x. submission_id x = sid) (\<lambda>x. sub') (submissions s))"
      using cur [unfolded flags_current_def]
      by (rule list_all_update_first) (simp add: new a)
    then have "flags_current s'" by (simp add: s' flags_current_def)
    then show ?thesis using Grade res s' flags by simp
  qed
next
  case (MoveDueDate validated assignmentId d now)
  have "flags_current (snd (update_dueDate validated s assignmentId d now))"
  proof (cases "fst (update_dueDate validated s assignmentId d now) = None")
    case False
    then have "snd (update_dueDate validated s assignmentId d now) = s"
      by (auto simp add: update_dueDate_def split: option.splits if_splits)
    then show ?thesis using cur by simp
  next
    case True
    then obtain a where a: "assignments s assignmentId = Some a"
      and none: "\<not> list_ex (\<lambda>x. sub_assignment x = assignmentId) (submissions s)"
      and s': "snd (update_dueDate validated s assignmentId d now) =
                 s\<lparr>assignments := (assignments s)(assignmentId \<mapsto> a\<lparr>dueDate := d\<rparr>)\<rparr>"
      by (auto simp add: update_dueDate_def split: option.splits if_splits)
    show ?thesis
      unfolding s' using cur none
      by (auto simp add: flags_current_def list_all_iff list_ex_iff)
  qed
  then show ?thesis using MoveDueDate by simp
next
  case (DeleteAssignment assignmentId)
  have "flags_current (snd (delete_assignment s assignmentId))"
  proof (cases "fst (delete_assignment s assignmentId) = None")
    case False
    then have "snd (delete_assignment s assignmentId) = s"
      by (auto simp add: delete_assignment_def split: option.splits if_splits)
    then show ?thesis using cur by simp
  next
    case True
    then have none: "\<not> list_ex (\<lambda>x. sub_assignment x = assignmentId) (submissions s)"
      and s': "snd (delete_assignment s assignmentId) =
                 s\<lparr>assignments := (assignments s)(assignmentId := None)\<rparr>"
      by (auto simp add: delete_assignment_def split: option.splits if_splits)
    show ?thesis
      unfolding s' using cur none
      by (auto simp add: flags_current_def list_all_iff list_ex_iff)
  qed
  then show ?thesis using DeleteAssignment by simp
next
  case (Publish assignmentId)
  have "flags_current (snd (publish_assignment s assignmentId))"
  proof (cases "assignments s assignmentId")
    case None
    then show ?thesis using cur by (simp add: publish_assignment_def)
  next
    case (Some a)
    have "list_all
       (\<lambda>sub. case ((assignments s)(assignmentId \<mapsto> a\<lparr>isPublished := True\<rparr>))
                      (sub_assignment sub) of
                 None \<Rightarrow> True
               | Some a \<Rightarrow> isLate sub = (submittedAt sub > dueDate a))
       (submissions s)"
      using cur Some by (auto simp add: flags_current_def list_all_iff)
    then show ?thesis using Some by (simp add: publish_assignment_def flags_current_def)
  qed
  then show ?thesis using Publish by simp
qed

lemma letter_hook_keeps: "letter_hook s sub = Inr sub' \<Longrightarrow> isLate sub' = isLate sub"
  by (auto simp add: letter_hook_def submissionSchema_pre_save_letter_def split: option.splits)

lemma sketch_hook_keeps: "sketch_hook s sub = Inr sub' \<Longrightarrow> isLate sub' = isLate sub"
  by (auto simp add: sketch_hook_def submissionSchema_pre_save_sketch_def
      split: option.splits if_splits)

lemma length_serve_submission:
  "length (submissions s) \<le> length (submissions (snd (serve_submission hook s r)))"
proof (cases r)
  case (Submit assignmentId studentId now)
  obtain err s' where res: "submit hook s assignmentId studentId now = (err, s')"
    by (cases "submit hook s assignmentId studentId now")
  from submit_cases [OF res] show ?thesis using Submit res by auto
next
  case (Grade version sid pts)
  obtain err s' where res: "grade_submission version hook s sid pts = (err, s')"
    by (cases "grade_submission version hook s sid pts")
  from grade_cases [OF res] show ?thesis using Grade res by auto
next
  case (MoveDueDate validated assignmentId d now)
  then show ?thesis by simp
next
  case (DeleteAssignment assignmentId)
  then show ?thesis by simp
next
  case (Publish assignmentId)
  then show ?thesis by simp
qed

lemma serve_submissions_flags:
  assumes "hook = letter_hook \<or> hook = sketch_hook \<or> (hook = design_hook \<and> flags_current s)"
  shows "map isLate (take (length (submissions s)) (submissions (serve_submissions hook s rs)))
      = map isLate (submissions s)
    \<and> (hook = letter_hook \<or> hook = sketch_hook
        \<or> (hook = design_hook \<and> flags_current (serve_submissions hook s rs)))"
  using assms
proof (induction rs arbitrary: s)
  case Nil
  then show ?case by auto
next
  case (Cons r rs)
  let ?s1 = "snd (serve_submission hook s r)"
  have "(map isLate (take (length (submissions s)) (submissions ?s1)) = map isLate (submissions s))
    \<and> (hook = letter_hook \<or> hook = sketch_hook \<or> (hook = design_hook \<and> flags_current ?s1))"
  proof (cases "hook = letter_hook")
    case True
    show ?thesis
      unfolding True using serve_submission_keeps_flag [of letter_hook s r, OF letter_hook_keeps]
      by simp
  next
    case False
    note not_letter = False
    show ?thesis
    proof (cases "hook = sketch_hook")
      case True
      show ?thesis
        unfolding True using serve_submission_keeps_flag [of sketch_hook s r, OF sketch_hook_keeps]
        by simp
    next
      case False
      then have d: "hook = design_hook" and cur: "flags_current s"
        using not_letter Cons.prems by simp_all
      show ?thesis unfolding d using serve_submission_design [OF cur, of r] by simp
    qed
  qed
  then have step: "map isLate (take (length (submissions s)) (submissions ?s1)) = map isLate (submissions s)"
    and inv: "hook = letter_hook \<or> hook = sketch_hook \<or> (hook = design_hook \<and> flags_current ?s1)"
    by simp_all
  have len: "length (submissions s) \<le> length (submissions ?s1)"
    by (rule length_serve_submission)
  from Cons.IH [OF inv]
  have ih: "map isLate (take (length (submissions ?s1)) (submissions (serve_submissions hook ?s1 rs)))
      = map isLate (submissions ?s1)"
    and cur: "hook = letter_hook \<or> hook = sketch_hook
        \<or> (hook = design_hook \<and> flags_current (serve_submissions hook ?s1 rs))"
    by simp_all
  have "map isLate (take (length (submissions s)) (submissions (serve_submissions hook ?s1 rs)))
      = take (length (submissions s))
          (map isLate (take (length (submissions ?s1)) (submissions (serve_submissions hook ?s1 rs))))"
    using len by (simp add: take_map min_def)
  also have "\<dots> = map isLate (take (length (submissions s)) (submissions ?s1))"
    unfolding ih by (simp add: take_map)
  also have "\<dots> = map isLate (submissions s)" by (rule step)
  finally show ?case using cur by simp
qed

text \<open>
  C9.  The late flag of a submission is set when it is created, to the comparison of
  the time of submission with the due date of the assignment, and no later request
  changes it: whatever submissions, gradings (in either quoted version), moves of a
  due date, deletions and publications of assignments are served, the flags of the
  submissions that exist at any moment are the same after every later request.  An
  assignment with a submission is not updated, so the due date of a submission that
  exists does not move.  This holds with the hooks
  that derive the letter only, which never write the flag, in every database; and with
  the hook of the database design document, which recomputes the flag at every save,
  in every database whose flags are current, as they are where no submission exists
  and stay under that hook.
\<close>

theorem late_flag_immutable:
  assumes "hook = letter_hook \<or> hook = sketch_hook \<or> (hook = design_hook \<and> flags_current s)"
  shows "map isLate (take (length (submissions (serve_submissions hook s before)))
                    (submissions (serve_submissions hook s (before @ later))))
      = map isLate (submissions (serve_submissions hook s before))
    \<and> (submit hook s assignmentId studentId now = (None, s') \<longrightarrow>
         (\<exists>a sub. assignments s assignmentId = Some a
            \<and> submissions s' = submissions s @ [sub]
            \<and> isLate sub = (now > dueDate a)))"
proof -
  let ?s1 = "serve_submissions hook s before"
  have "hook = letter_hook \<or> hook = sketch_hook \<or> (hook = design_hook \<and> flags_current ?s1)"
    using serve_submissions_flags [OF assms, of before] assms by blast
  from serve_submissions_flags [OF this, of later]
  have later: "map isLate (take (length (submissions ?s1))
                    (submissions (serve_submissions hook s (before @ later))))
      = map isLate (submissions ?s1)"
    by (simp add: serve_submissions_append)
  have created: "\<exists>a sub. assignments s assignmentId = Some a
            \<and> submissions s' = submissions s @ [sub]
            \<and> isLate sub = (now > dueDate a)"
    if ok: "submit hook s assignmentId studentId now = (None, s')"
  proof -
    from submit_cases [OF ok]
    obtain a sub where a: "assignments s assignmentId = Some a"
      and h: "hook s \<lparr>submission_id = nextId s, sub_assignment = assignmentId,
                      sub_student = studentId, submittedAt = now,
                      isLate = (now > dueDate a), sub_status = Submitted,
                      sub_grade = None\<rparr> = Inr sub"
      and s': "s' = s\<lparr>submissions := submissions s @ [sub], nextId := Suc (nextId s)\<rparr>"
      by blast
    have "isLate sub = (now > dueDate a)"
    proof (cases "hook = design_hook")
      case True
      from design_hook_flag [OF h [unfolded True]] a show ?thesis by auto
    next
      case False
      then have "hook = letter_hook \<or> hook = sketch_hook" using assms by blast
      then show ?thesis
      proof
        assume l: "hook = letter_hook"
        from letter_hook_keeps [OF h [unfolded l]] show ?thesis by simp
      next
        assume k: "hook = sketch_hook"
        from sketch_hook_keeps [OF h [unfolded k]] show ?thesis by simp
      qed
    qed
    then show ?thesis using a s' by simp
  qed
  show ?thesis using later created by blast
qed

theorem late_flag_immutable_witness:
  "flags_current (term_db True)
   \<and> map isLate
        (submissions (serve_submissions design_hook (term_db True)
                        [Submit 1 7 5, Submit 1 8 20])) = [False, True]
   \<and> fst (serve_submission design_hook
            (serve_submissions design_hook (term_db True) [Submit 1 7 5, Submit 1 8 20])
            (MoveDueDate False 1 3 0)) = Some SubmissionsExistError
   \<and> map isLate
        (submissions (serve_submissions design_hook (term_db True)
                        ([Submit 1 7 5, Submit 1 8 20]
                         @ [MoveDueDate False 1 3 0, Grade GradingCalculation 3 80,
                            DeleteAssignment 1, Publish 1, Grade GradingSubmission 4 90]))) = [False, True]
   \<and> map sub_status
        (submissions (serve_submissions design_hook (term_db True)
                        ([Submit 1 7 5, Submit 1 8 20]
                         @ [MoveDueDate False 1 3 0, Grade GradingCalculation 3 80,
                            DeleteAssignment 1, Publish 1, Grade GradingSubmission 4 90]))) = [Graded, Submitted]"
  using late_flag_immutable [of design_hook "term_db True" "[Submit 1 7 5, Submit 1 8 20]"
      "[MoveDueDate False 1 3 0, Grade GradingCalculation 3 80, DeleteAssignment 1, Publish 1,
        Grade GradingSubmission 4 90]"
      1 7 5 "snd (submit design_hook (term_db True) 1 7 5)"]
  by (simp add: term_db_def empty_db_def flags_current_def submit_def update_dueDate_def
      delete_assignment_def publish_assignment_def grade_submission_def graded_def save_submission_def grade_valid_def design_hook_def
      submissionSchema_pre_save_def finalPercentage_def rawPercentage_def
      calculateLetterGrade_def Let_def fl_eval)

subsection \<open>The grade point average\<close>

lemma foldl_gpa_sum: "foldl (\<lambda>sum g. sum + gpa g) a gs = a + sum_list (map gpa gs)"
  by (induction gs arbitrary: a) auto

text \<open>
  C10.  The overall grade point average is the sum of the grade points divided by the
  number of grade documents: \<open>NaN\<close> for no document (0 / 0), and the arithmetic mean
  for at least one.  The query filters by student only, so finalized and open grades
  count alike.
\<close>

theorem overallGPA_mean:
  "overallGPA [] = NaN
   \<and> (gs \<noteq> [] \<longrightarrow> overallGPA gs = Fin (sum_list (map gpa gs) / of_nat (length gs)))
   \<and> ((\<forall>g \<in> set (grades s). g_student g \<noteq> studentId) \<longrightarrow>
        student_overallGPA s studentId = NaN)
   \<and> ((\<exists>g \<in> set (grades s). g_student g = studentId) \<longrightarrow>
        student_overallGPA s studentId =
          Fin (sum_list (map gpa (filter (\<lambda>g. g_student g = studentId) (grades s)))
               / of_nat (length (filter (\<lambda>g. g_student g = studentId) (grades s)))))"
proof -
  have empty: "overallGPA [] = NaN"
    by (simp add: overallGPA_def js_div_def)
  have mean: "overallGPA xs = Fin (sum_list (map gpa xs) / of_nat (length xs))"
    if "xs \<noteq> []" for xs
    using that by (simp add: overallGPA_def js_div_def foldl_gpa_sum)
  have none: "filter (\<lambda>g. g_student g = studentId) (grades s) = []"
    if "\<forall>g \<in> set (grades s). g_student g \<noteq> studentId"
    using that by (simp add: filter_empty_conv)
  have some: "filter (\<lambda>g. g_student g = studentId) (grades s) \<noteq> []"
    if "\<exists>g \<in> set (grades s). g_student g = studentId"
    using that by (simp add: filter_empty_conv)
  show ?thesis
    using empty mean none some by (simp add: student_overallGPA_def)
qed

theorem overallGPA_mean_witness:
  "student_overallGPA grades_db 7 = Fin (7 / 2)
   \<and> student_overallGPA grades_db 9 = NaN
   \<and> map isFinalized (filter (\<lambda>g. g_student g = 7) (grades grades_db)) = [False, True]"
  using overallGPA_mean [of "[]" grades_db 7] overallGPA_mean [of "[]" grades_db 9]
  by (simp add: grades_db_def empty_db_def)


end
